theory Spec2Isabelle
  imports Main "HOL-Library.Word"
begin

section \<open>JavaScript strings and thrown values\<close>

text \<open>
  A JavaScript string is a sequence of 16-bit code units. The regular expressions of
  the action carry no \<open>u\<close> flag, so they match code unit by code unit.
  \<open>str\<close> turns an ASCII literal of the theory into such a string; \<open>ch\<close> does
  the same for one character. The backslash is written \<open>0x5C\<close>.
\<close>

type_synonym jschar = "16 word"
type_synonym jsstring = "jschar list"

abbreviation ch :: "char \<Rightarrow> jschar" where
  "ch \<equiv> of_char"

definition str :: "string \<Rightarrow> jsstring" where
  "str = map of_char"

text \<open>
  What a \<open>throw\<close> carries. \<open>Error\<close>, \<open>SyntaxError\<close> and \<open>TypeError\<close> hold
  their message. \<open>NotModelled\<close> is not a JavaScript error: the model of the runtime's
  \<open>RegExp\<close> answers with it on pattern syntax that it does not cover.
\<close>

datatype js_error =
    Error jsstring
  | SyntaxError jsstring
  | TypeError jsstring
  | NotModelled jsstring

section \<open>The runtime's regular expressions\<close>

subsection \<open>Character sets\<close>

definition is_line_terminator :: "jschar \<Rightarrow> bool" where
  "is_line_terminator c = (c = 0x0A \<or> c = 0x0D \<or> c = 0x2028 \<or> c = 0x2029)"

text \<open>The class \<open>\s\<close>: WhiteSpace and LineTerminator of ECMAScript.\<close>

definition is_whitespace :: "jschar \<Rightarrow> bool" where
  "is_whitespace c =
     (c = 0x09 \<or> c = 0x0A \<or> c = 0x0B \<or> c = 0x0C \<or> c = 0x0D \<or> c = 0x20 \<or> c = 0xA0
      \<or> c = 0x1680 \<or> (0x2000 \<le> c \<and> c \<le> 0x200A) \<or> c = 0x2028 \<or> c = 0x2029
      \<or> c = 0x202F \<or> c = 0x205F \<or> c = 0x3000 \<or> c = 0xFEFF)"

definition is_digit :: "jschar \<Rightarrow> bool" where
  "is_digit c = (0x30 \<le> c \<and> c \<le> 0x39)"

definition is_word_char :: "jschar \<Rightarrow> bool" where
  "is_word_char c =
     ((0x61 \<le> c \<and> c \<le> 0x7A) \<or> (0x41 \<le> c \<and> c \<le> 0x5A) \<or> is_digit c \<or> c = 0x5F)"

datatype class_item =
    CChar jschar
  | CRange jschar jschar
  | CSpace | CNotSpace
  | CDigit | CNotDigit
  | CWord | CNotWord

fun item_matches :: "class_item \<Rightarrow> jschar \<Rightarrow> bool" where
  "item_matches (CChar a) c = (c = a)"
| "item_matches (CRange a b) c = (a \<le> c \<and> c \<le> b)"
| "item_matches CSpace c = is_whitespace c"
| "item_matches CNotSpace c = (\<not> is_whitespace c)"
| "item_matches CDigit c = is_digit c"
| "item_matches CNotDigit c = (\<not> is_digit c)"
| "item_matches CWord c = is_word_char c"
| "item_matches CNotWord c = (\<not> is_word_char c)"

definition class_matches :: "class_item list \<Rightarrow> jschar \<Rightarrow> bool" where
  "class_matches items c = list_ex (\<lambda>it. item_matches it c) items"

subsection \<open>Patterns and matching\<close>

text \<open>
  A pattern is a disjunction: a list of alternatives, each a list of terms.
  \<open>CharClass neg items\<close> is \<open>[...]\<close>, or \<open>[^...]\<close> when \<open>neg\<close> holds.
  \<open>Bol\<close> and \<open>Eol\<close> are \<open>^\<close> and \<open>$\<close> without the \<open>m\<close> flag.
\<close>

datatype node =
    Lit jschar
  | Dot
  | CharClass bool "class_item list"
  | Bol
  | Eol
  | Group "node list list"
  | Star node
  | Plus node
  | Opt node

type_synonym pattern = "node list list"

text \<open>
  A matcher state is the index reached in the subject and the code units still ahead.
  A term maps a state to every state in which a match of it can end.
\<close>

type_synonym mstate = "nat \<times> jsstring"

definition step_char :: "(jschar \<Rightarrow> bool) \<Rightarrow> mstate \<Rightarrow> mstate list" where
  "step_char P s = (case snd s of [] \<Rightarrow> [] | c # cs \<Rightarrow> if P c then [(Suc (fst s), cs)] else [])"

text \<open>
  Repetition: an iteration that consumes nothing is dropped, as the runtime does, so
  the subject's remaining length bounds the number of iterations.
\<close>

fun star_iter :: "(mstate \<Rightarrow> mstate list) \<Rightarrow> nat \<Rightarrow> mstate \<Rightarrow> mstate list" where
  "star_iter f 0 s = [s]"
| "star_iter f (Suc n) s =
     s # concat (map (star_iter f n) (filter (\<lambda>s'. fst s < fst s') (f s)))"

fun m_node :: "node \<Rightarrow> mstate \<Rightarrow> mstate list" where
  "m_node (Lit c) s = step_char (\<lambda>d. d = c) s"
| "m_node Dot s = step_char (\<lambda>d. \<not> is_line_terminator d) s"
| "m_node (CharClass neg items) s = step_char (\<lambda>d. class_matches items d \<noteq> neg) s"
| "m_node Bol s = (if fst s = 0 then [s] else [])"
| "m_node Eol s = (if snd s = [] then [s] else [])"
| "m_node (Group alts) s =
     concat (map (\<lambda>alt. fold (\<lambda>n ss. concat (map (m_node n) ss)) alt [s]) alts)"
| "m_node (Star r) s = star_iter (m_node r) (length (snd s)) s"
| "m_node (Plus r) s =
     concat (map (\<lambda>s'. star_iter (m_node r) (length (snd s')) s') (m_node r s))"
| "m_node (Opt r) s = s # m_node r s"

text \<open>The terms of one alternative, run in sequence from a list of states.\<close>

abbreviation run_terms :: "node list \<Rightarrow> mstate list \<Rightarrow> mstate list" where
  "run_terms ns ss \<equiv> fold (\<lambda>n ss. concat (map (m_node n) ss)) ns ss"

definition matches_at :: "pattern \<Rightarrow> mstate \<Rightarrow> bool" where
  "matches_at p s = (m_node (Group p) s \<noteq> [])"

text \<open>
  \<open>RegExp.prototype.test\<close> of a pattern without the \<open>g\<close> and \<open>y\<close> flags: try
  every start index from 0 up to the length of the subject.
\<close>

fun search :: "pattern \<Rightarrow> nat \<Rightarrow> jsstring \<Rightarrow> bool" where
  "search p i [] = matches_at p (i, [])"
| "search p i (c # cs) = (matches_at p (i, c # cs) \<or> search p (Suc i) cs)"

definition regex_test :: "pattern \<Rightarrow> jsstring \<Rightarrow> bool" where
  "regex_test p t = search p 0 t"

subsection \<open>Reading a pattern from its source text\<close>

text \<open>
  \<open>new RegExp(source)\<close> with no flags, for the part of the pattern syntax that the
  action can reach: alternation, capturing groups, character classes with ranges and class
  escapes, the anchors \<open>^\<close> and \<open>$\<close>, the dot, the quantifiers \<open>*\<close>, \<open>+\<close>,
  \<open>?\<close>, control and identity escapes (every escaped character that has no meaning of its
  own stands for itself, as in web browsers and Node). On braces, \<open>(?\<close>, lazy quantifiers,
  back references, \<open>\b\<close>, \<open>\c\<close>, \<open>\x\<close>, \<open>\u\<close> and \<open>\k\<close> it answers
  \<open>NotModelled\<close>.

  The reader is a pushdown automaton over the source text, one step per code unit:
  \<open>Frame alts cur\<close> holds the finished alternatives of the group being read and the
  terms of the current one; the frames of the enclosing groups wait on a stack; the mode
  says what the previous code units have opened.
\<close>

datatype frame = Frame "node list list" "node list"

fun close_frame :: "frame \<Rightarrow> pattern" where
  "close_frame (Frame alts cur) = alts @ [cur]"

fun add_node :: "node \<Rightarrow> frame \<Rightarrow> frame" where
  "add_node n (Frame alts cur) = Frame alts (cur @ [n])"

fun new_alt :: "frame \<Rightarrow> frame" where
  "new_alt (Frame alts cur) = Frame (alts @ [cur]) []"

fun quantifiable :: "node \<Rightarrow> bool" where
  "quantifiable Bol = False"
| "quantifiable Eol = False"
| "quantifiable (Star r) = False"
| "quantifiable (Plus r) = False"
| "quantifiable (Opt r) = False"
| "quantifiable n = True"

fun is_quantified :: "node \<Rightarrow> bool" where
  "is_quantified (Star r) = True"
| "is_quantified (Plus r) = True"
| "is_quantified (Opt r) = True"
| "is_quantified n = False"

definition quantifier :: "jschar \<Rightarrow> node \<Rightarrow> node" where
  "quantifier c n = (if c = ch CHR ''*'' then Star n else if c = ch CHR ''+'' then Plus n else Opt n)"

fun quantify :: "jschar \<Rightarrow> frame \<Rightarrow> js_error + frame" where
  "quantify c (Frame alts cur) =
     (if cur = [] then Inl (SyntaxError (str ''Nothing to repeat''))
      else if is_quantified (last cur) \<and> c = ch CHR ''?''
        then Inl (NotModelled (str ''lazy quantifier''))
      else if \<not> quantifiable (last cur) then Inl (SyntaxError (str ''Nothing to repeat''))
      else Inr (Frame alts (butlast cur @ [quantifier c (last cur)])))"

definition escape_node :: "jschar \<Rightarrow> js_error + node" where
  "escape_node c =
     (if c = ch CHR ''s'' then Inr (CharClass False [CSpace])
      else if c = ch CHR ''S'' then Inr (CharClass False [CNotSpace])
      else if c = ch CHR ''d'' then Inr (CharClass False [CDigit])
      else if c = ch CHR ''D'' then Inr (CharClass False [CNotDigit])
      else if c = ch CHR ''w'' then Inr (CharClass False [CWord])
      else if c = ch CHR ''W'' then Inr (CharClass False [CNotWord])
      else if c = ch CHR ''t'' then Inr (Lit 0x09)
      else if c = ch CHR ''n'' then Inr (Lit 0x0A)
      else if c = ch CHR ''v'' then Inr (Lit 0x0B)
      else if c = ch CHR ''f'' then Inr (Lit 0x0C)
      else if c = ch CHR ''r'' then Inr (Lit 0x0D)
      else if c = ch CHR ''b'' \<or> c = ch CHR ''B'' \<or> is_digit c \<or> c = ch CHR ''c''
              \<or> c = ch CHR ''x'' \<or> c = ch CHR ''u'' \<or> c = ch CHR ''k''
        then Inl (NotModelled (str ''escape''))
      else Inr (Lit c))"

definition class_escape_item :: "jschar \<Rightarrow> js_error + class_item" where
  "class_escape_item c =
     (if c = ch CHR ''s'' then Inr CSpace
      else if c = ch CHR ''S'' then Inr CNotSpace
      else if c = ch CHR ''d'' then Inr CDigit
      else if c = ch CHR ''D'' then Inr CNotDigit
      else if c = ch CHR ''w'' then Inr CWord
      else if c = ch CHR ''W'' then Inr CNotWord
      else if c = ch CHR ''t'' then Inr (CChar 0x09)
      else if c = ch CHR ''n'' then Inr (CChar 0x0A)
      else if c = ch CHR ''v'' then Inr (CChar 0x0B)
      else if c = ch CHR ''f'' then Inr (CChar 0x0C)
      else if c = ch CHR ''r'' then Inr (CChar 0x0D)
      else if c = ch CHR ''b'' then Inr (CChar 0x08)
      else if is_digit c \<or> c = ch CHR ''c'' \<or> c = ch CHR ''x'' \<or> c = ch CHR ''u''
        then Inl (NotModelled (str ''escape in class''))
      else Inr (CChar c))"

fun range_start :: "class_item list \<Rightarrow> jschar option" where
  "range_start [] = None"
| "range_start items = (case last items of CChar a \<Rightarrow> Some a | _ \<Rightarrow> None)"

datatype mode =
    MMain
  | MGroupStart
  | MEscape
  | MClassStart
  | MClass bool "class_item list"
  | MClassEscape bool "class_item list"
  | MClassDash jschar bool "class_item list"

datatype pstate = PState mode frame "frame list"

definition main_step :: "frame \<Rightarrow> frame list \<Rightarrow> jschar \<Rightarrow> js_error + pstate" where
  "main_step fr stack c =
     (if c = 0x5C then Inr (PState MEscape fr stack)
      else if c = ch CHR ''('' then Inr (PState MGroupStart (Frame [] []) (fr # stack))
      else if c = ch CHR '')'' then
        (case stack of
           [] \<Rightarrow> Inl (SyntaxError (str ''Unmatched parenthesis''))
         | f # fs \<Rightarrow> Inr (PState MMain (add_node (Group (close_frame fr)) f) fs))
      else if c = ch CHR ''|'' then Inr (PState MMain (new_alt fr) stack)
      else if c = ch CHR ''*'' \<or> c = ch CHR ''+'' \<or> c = ch CHR ''?'' then
        (case quantify c fr of
           Inl e \<Rightarrow> Inl e
         | Inr fr' \<Rightarrow> Inr (PState MMain fr' stack))
      else if c = ch CHR ''['' then Inr (PState MClassStart fr stack)
      else if c = ch CHR ''{'' then Inl (NotModelled (str ''brace''))
      else if c = ch CHR ''.'' then Inr (PState MMain (add_node Dot fr) stack)
      else if c = ch CHR ''^'' then Inr (PState MMain (add_node Bol fr) stack)
      else if c = ch CHR ''$'' then Inr (PState MMain (add_node Eol fr) stack)
      else Inr (PState MMain (add_node (Lit c) fr) stack))"

definition class_step :: "bool \<Rightarrow> class_item list \<Rightarrow> frame \<Rightarrow> frame list \<Rightarrow> jschar \<Rightarrow> js_error + pstate" where
  "class_step neg items fr stack c =
     (if c = ch CHR '']'' then Inr (PState MMain (add_node (CharClass neg items) fr) stack)
      else if c = 0x5C then Inr (PState (MClassEscape neg items) fr stack)
      else if c = ch CHR ''-'' then
        (case range_start items of
           None \<Rightarrow> Inr (PState (MClass neg (items @ [CChar c])) fr stack)
         | Some a \<Rightarrow> Inr (PState (MClassDash a neg (butlast items)) fr stack))
      else Inr (PState (MClass neg (items @ [CChar c])) fr stack))"

fun parse_step :: "pstate \<Rightarrow> jschar \<Rightarrow> js_error + pstate" where
  "parse_step (PState MMain fr stack) c = main_step fr stack c"
| "parse_step (PState MGroupStart fr stack) c =
     (if c = ch CHR ''?'' then Inl (NotModelled (str ''group specifier''))
      else main_step fr stack c)"
| "parse_step (PState MEscape fr stack) c =
     (case escape_node c of
        Inl e \<Rightarrow> Inl e
      | Inr n \<Rightarrow> Inr (PState MMain (add_node n fr) stack))"
| "parse_step (PState MClassStart fr stack) c =
     (if c = ch CHR ''^'' then Inr (PState (MClass True []) fr stack)
      else class_step False [] fr stack c)"
| "parse_step (PState (MClass neg items) fr stack) c = class_step neg items fr stack c"
| "parse_step (PState (MClassEscape neg items) fr stack) c =
     (case class_escape_item c of
        Inl e \<Rightarrow> Inl e
      | Inr it \<Rightarrow> Inr (PState (MClass neg (items @ [it])) fr stack))"
| "parse_step (PState (MClassDash a neg items) fr stack) c =
     (if c = ch CHR '']''
        then Inr (PState MMain (add_node (CharClass neg (items @ [CChar a, CChar (ch CHR ''-'')])) fr) stack)
      else if c = 0x5C then Inl (NotModelled (str ''escaped end of range''))
      else if a \<le> c then Inr (PState (MClass neg (items @ [CRange a c])) fr stack)
      else Inl (SyntaxError (str ''Range out of order in character class'')))"

fun parse_finish :: "pstate \<Rightarrow> js_error + pattern" where
  "parse_finish (PState MMain fr []) = Inr (close_frame fr)"
| "parse_finish (PState MMain fr (f # fs)) = Inl (SyntaxError (str ''Unterminated group''))"
| "parse_finish (PState MGroupStart fr stack) = Inl (SyntaxError (str ''Unterminated group''))"
| "parse_finish (PState MEscape fr stack) = Inl (SyntaxError (str ''backslash at end of pattern''))"
| "parse_finish (PState (MClassEscape neg items) fr stack) =
     Inl (SyntaxError (str ''backslash at end of pattern''))"
| "parse_finish (PState m fr stack) = Inl (SyntaxError (str ''Unterminated character class''))"

fun parse_run :: "pstate \<Rightarrow> jsstring \<Rightarrow> js_error + pattern" where
  "parse_run st [] = parse_finish st"
| "parse_run st (c # cs) =
     (case parse_step st c of
        Inl e \<Rightarrow> Inl e
      | Inr st' \<Rightarrow> parse_run st' cs)"

definition RegExp_new :: "jsstring \<Rightarrow> js_error + pattern" where
  "RegExp_new source = parse_run (PState MMain (Frame [] []) []) source"

section \<open>Trigger detection\<close>

text \<open>
  \<open>detectAIProvider\<close>, \<open>checkContainsTrigger\<close> and \<open>escapeRegExp\<close> of
  \<open>src/github/validation\<close>. Console output is not part of the model.
\<close>

datatype AIProvider = Claude | Augment

subsection \<open>The regular expressions of the source\<close>

text \<open>
  The two groups that every trigger expression of the source starts and ends with:
  \<open>(^|\s)\<close> and \<open>([\s.,!?;:]|$)\<close>.
\<close>

definition boundary_before :: node where
  "boundary_before = Group [[Bol], [CharClass False [CSpace]]]"

definition trailing_items :: "class_item list" where
  "trailing_items =
     [CSpace, CChar (ch CHR ''.''), CChar (ch CHR '',''), CChar (ch CHR ''!''),
      CChar (ch CHR ''?''), CChar (ch CHR '';''), CChar (ch CHR '':'')]"

definition boundary_after :: node where
  "boundary_after = Group [[CharClass False trailing_items], [Eol]]"

definition boundary_pattern :: "jsstring \<Rightarrow> pattern" where
  "boundary_pattern w = [boundary_before # map Lit w @ [boundary_after]]"

text \<open>The source text between the slashes of \<open>/(^|\s)@augment([\s.,!?;:]|$)/\<close>.\<close>

definition augmentRegex_source :: jsstring where
  "augmentRegex_source =
     str ''(^|'' @ [0x5C] @ str ''s)@augment(['' @ [0x5C] @ str ''s.,!?;:]|$)''"

definition augmentRegex :: pattern where
  "augmentRegex = boundary_pattern (str ''@augment'')"

text \<open>The source text of \<open>/(^|\s)@claude([\s.,!?;:]|$)/\<close>.\<close>

definition claudeRegex_source :: jsstring where
  "claudeRegex_source =
     str ''(^|'' @ [0x5C] @ str ''s)@claude(['' @ [0x5C] @ str ''s.,!?;:]|$)''"

definition claudeRegex :: pattern where
  "claudeRegex = boundary_pattern (str ''@claude'')"

text \<open>
  The class of \<open>escapeRegExp\<close>, \<open>/[.*+?^${}()|[\]\\]/g\<close>: its source text and the
  items it lists.
\<close>

definition special_source :: jsstring where
  "special_source = str ''[.*+?^${}()|['' @ [0x5C] @ str '']'' @ [0x5C, 0x5C] @ str '']''"

definition special_items :: "class_item list" where
  "special_items =
     [CChar (ch CHR ''.''), CChar (ch CHR ''*''), CChar (ch CHR ''+''), CChar (ch CHR ''?''),
      CChar (ch CHR ''^''), CChar (ch CHR ''$''), CChar (ch CHR ''{''), CChar (ch CHR ''}''),
      CChar (ch CHR ''(''), CChar (ch CHR '')''), CChar (ch CHR ''|''), CChar (ch CHR ''[''),
      CChar (ch CHR '']''), CChar 0x5C]"

subsection \<open>detectAIProvider\<close>

definition detectAIProvider :: "jsstring \<Rightarrow> AIProvider option" where
  "detectAIProvider text =
     (if regex_test augmentRegex text then Some Augment
      else if regex_test claudeRegex text then Some Claude
      else None)"

subsection \<open>escapeRegExp\<close>

text \<open>
  \<open>string.replace(/[.*+?^${}()|[\]\\]/g, "\\$&")\<close>: the expression matches one code
  unit at a time and carries the \<open>g\<close> flag, so every code unit of the class is replaced
  by a backslash and itself, and every other code unit is kept.
\<close>

definition escapeRegExp :: "jsstring \<Rightarrow> jsstring" where
  "escapeRegExp string =
     concat (map (\<lambda>c. if class_matches special_items c then [0x5C, c] else [c]) string)"

subsection \<open>The event context\<close>

text \<open>
  Modelled from the spec: the type \<open>ParsedGitHubContext\<close> of
  \<open>src/github/context\<close>, which is not among the sources. The context is a snapshot of
  the event: its action, the repository, the actor's login, the payload of the event and
  the configuration inputs; the fields that the functions below do not read are left out.
  The payload is a union tagged by the event name. Of an issues event the model keeps the
  body and the title of the issue and the login of the assignee, of a pull request its
  body and title, of a review its body, of a comment its body; any other event keeps its
  name. A field that the source reads with \<open>|| ""\<close> or \<open>?.\<close> may be absent.
\<close>

datatype payload =
    IssuesEvent "jsstring option" "jsstring option" "jsstring option"
  | IssueCommentEvent jsstring
  | PullRequestEvent "jsstring option" "jsstring option"
  | PullRequestReviewEvent "jsstring option"
  | PullRequestReviewCommentEvent jsstring
  | OtherEvent jsstring

record inputs =
  triggerPhrase :: jsstring
  assigneeTrigger :: jsstring
  directPrompt :: jsstring
  allowedBotNames :: "jsstring list"

record repository =
  owner :: jsstring
  repo :: jsstring

record ParsedGitHubContext =
  eventAction :: "jsstring option"
  repository :: repository
  actor :: jsstring
  payload :: payload
  inputs :: inputs

text \<open>
  Modelled from the spec: the type guards \<open>isIssuesEvent\<close>,
  \<open>isIssuesAssignedEvent\<close>, \<open>isIssueCommentEvent\<close>, \<open>isPullRequestEvent\<close>,
  \<open>isPullRequestReviewEvent\<close> and \<open>isPullRequestReviewCommentEvent\<close> of
  \<open>src/github/context\<close>, which is not among the sources. A guard tests the event
  name, that is the tag of the payload; an issue-assignment event is an issues event whose
  action is \<open>assigned\<close>.
\<close>

fun isIssuesEvent :: "ParsedGitHubContext \<Rightarrow> bool" where
  "isIssuesEvent context = (case payload context of IssuesEvent b t a \<Rightarrow> True | _ \<Rightarrow> False)"

fun isIssuesAssignedEvent :: "ParsedGitHubContext \<Rightarrow> bool" where
  "isIssuesAssignedEvent context =
     (isIssuesEvent context \<and> eventAction context = Some (str ''assigned''))"

fun isIssueCommentEvent :: "ParsedGitHubContext \<Rightarrow> bool" where
  "isIssueCommentEvent context = (case payload context of IssueCommentEvent b \<Rightarrow> True | _ \<Rightarrow> False)"

fun isPullRequestEvent :: "ParsedGitHubContext \<Rightarrow> bool" where
  "isPullRequestEvent context = (case payload context of PullRequestEvent b t \<Rightarrow> True | _ \<Rightarrow> False)"

fun isPullRequestReviewEvent :: "ParsedGitHubContext \<Rightarrow> bool" where
  "isPullRequestReviewEvent context =
     (case payload context of PullRequestReviewEvent b \<Rightarrow> True | _ \<Rightarrow> False)"

fun isPullRequestReviewCommentEvent :: "ParsedGitHubContext \<Rightarrow> bool" where
  "isPullRequestReviewCommentEvent context =
     (case payload context of PullRequestReviewCommentEvent b \<Rightarrow> True | _ \<Rightarrow> False)"

text \<open>\<open>x || ""\<close> on a string that may be absent.\<close>

fun or_empty :: "jsstring option \<Rightarrow> jsstring" where
  "or_empty None = []"
| "or_empty (Some x) = x"

subsection \<open>checkContainsTrigger\<close>

record TriggerResult =
  containsTrigger :: bool
  aiProvider :: "AIProvider option"

definition triggered :: "AIProvider \<Rightarrow> TriggerResult" where
  "triggered p = \<lparr>containsTrigger = True, aiProvider = Some p\<rparr>"

definition not_triggered :: TriggerResult where
  "not_triggered = \<lparr>containsTrigger = False, aiProvider = None\<rparr>"

text \<open>
  The template \<open>`(^|\\s)${escapeRegExp(triggerPhrase)}([\\s.,!?;:]|$)`\<close> and the
  expression that \<open>new RegExp\<close> makes of it.
\<close>

definition trigger_source :: "jsstring \<Rightarrow> jsstring" where
  "trigger_source phrase =
     str ''(^|'' @ [0x5C] @ str ''s)'' @ escapeRegExp phrase @ str ''(['' @ [0x5C] @ str ''s.,!?;:]|$)''"

text \<open>\<open>assigneeTrigger.replace(/^@/, "")\<close>: one leading \<open>@\<close> is dropped.\<close>

fun strip_at :: "jsstring \<Rightarrow> jsstring" where
  "strip_at [] = []"
| "strip_at (c # cs) = (if c = ch CHR ''@'' then cs else c # cs)"

text \<open>
  Each block of the source is a function that answers \<open>Some\<close> result where the block
  returns and \<open>None\<close> where control falls through to the next block.
\<close>

definition assignee_block :: "ParsedGitHubContext \<Rightarrow> TriggerResult option" where
  "assignee_block context =
     (if isIssuesAssignedEvent context then
        (case payload context of
           IssuesEvent body title assignee \<Rightarrow>
             (let triggerUser = strip_at (assigneeTrigger (inputs context));
                  assigneeUsername = or_empty assignee
              in if triggerUser \<noteq> [] \<and> assigneeUsername = triggerUser
                 then Some (triggered Claude) else None)
         | _ \<Rightarrow> None)
      else None)"

text \<open>
  The body of the blocks for issues and pull requests: the provider mention in the body,
  then in the title; then the trigger phrase in the body, then in the title.
\<close>

definition body_title_block :: "jsstring \<Rightarrow> jsstring \<Rightarrow> jsstring \<Rightarrow> js_error + TriggerResult option" where
  "body_title_block phrase body title =
     (case (case detectAIProvider body of None \<Rightarrow> detectAIProvider title | Some p \<Rightarrow> Some p) of
        Some p \<Rightarrow> Inr (Some (triggered p))
      | None \<Rightarrow>
          (case RegExp_new (trigger_source phrase) of
             Inl e \<Rightarrow> Inl e
           | Inr regex \<Rightarrow>
               if regex_test regex body then Inr (Some (triggered Claude))
               else if regex_test regex title then Inr (Some (triggered Claude))
               else Inr None))"

text \<open>The body of the blocks for reviews and comments: one text field.\<close>

definition body_block :: "jsstring \<Rightarrow> jsstring \<Rightarrow> js_error + TriggerResult option" where
  "body_block phrase body =
     (case detectAIProvider body of
        Some p \<Rightarrow> Inr (Some (triggered p))
      | None \<Rightarrow>
          (case RegExp_new (trigger_source phrase) of
             Inl e \<Rightarrow> Inl e
           | Inr regex \<Rightarrow>
               if regex_test regex body then Inr (Some (triggered Claude))
               else Inr None))"

definition issues_block :: "ParsedGitHubContext \<Rightarrow> js_error + TriggerResult option" where
  "issues_block context =
     (if isIssuesEvent context \<and> eventAction context = Some (str ''opened'') then
        (case payload context of
           IssuesEvent body title assignee \<Rightarrow>
             body_title_block (triggerPhrase (inputs context)) (or_empty body) (or_empty title)
         | _ \<Rightarrow> Inr None)
      else Inr None)"

definition pull_request_block :: "ParsedGitHubContext \<Rightarrow> js_error + TriggerResult option" where
  "pull_request_block context =
     (if isPullRequestEvent context then
        (case payload context of
           PullRequestEvent body title \<Rightarrow>
             body_title_block (triggerPhrase (inputs context)) (or_empty body) (or_empty title)
         | _ \<Rightarrow> Inr None)
      else Inr None)"

definition review_block :: "ParsedGitHubContext \<Rightarrow> js_error + TriggerResult option" where
  "review_block context =
     (if isPullRequestReviewEvent context
          \<and> (eventAction context = Some (str ''submitted'')
               \<or> eventAction context = Some (str ''edited'')) then
        (case payload context of
           PullRequestReviewEvent body \<Rightarrow>
             body_block (triggerPhrase (inputs context)) (or_empty body)
         | _ \<Rightarrow> Inr None)
      else Inr None)"

definition comment_block :: "ParsedGitHubContext \<Rightarrow> js_error + TriggerResult option" where
  "comment_block context =
     (if isIssueCommentEvent context \<or> isPullRequestReviewCommentEvent context then
        (case payload context of
           IssueCommentEvent body \<Rightarrow> body_block (triggerPhrase (inputs context)) body
         | PullRequestReviewCommentEvent body \<Rightarrow> body_block (triggerPhrase (inputs context)) body
         | _ \<Rightarrow> Inr None)
      else Inr None)"

text \<open>Run the blocks in the order of the source; the first that returns decides.\<close>

fun first_of :: "(ParsedGitHubContext \<Rightarrow> js_error + TriggerResult option) list
    \<Rightarrow> ParsedGitHubContext \<Rightarrow> js_error + TriggerResult" where
  "first_of [] context = Inr not_triggered"
| "first_of (b # bs) context =
     (case b context of
        Inl e \<Rightarrow> Inl e
      | Inr (Some r) \<Rightarrow> Inr r
      | Inr None \<Rightarrow> first_of bs context)"

definition checkContainsTrigger :: "ParsedGitHubContext \<Rightarrow> js_error + TriggerResult" where
  "checkContainsTrigger context =
     (if directPrompt (inputs context) \<noteq> [] then Inr (triggered Claude)
      else first_of [\<lambda>c. Inr (assignee_block c), issues_block, pull_request_block,
                     review_block, comment_block] context)"

subsection \<open>Whole-word occurrences\<close>

text \<open>
  What the specification calls a standalone token: the text is \<open>pre @ w @ post\<close> where
  \<open>pre\<close> is empty or ends in whitespace and \<open>post\<close> is empty or starts with a code
  unit of the class \<open>items\<close>. The class of the source is \<open>trailing_items\<close>, which has
  all of \<open>\s\<close>; the specification lists the space character and the six punctuation marks.
\<close>

definition standalone :: "class_item list \<Rightarrow> jsstring \<Rightarrow> jsstring \<Rightarrow> bool" where
  "standalone items w t =
     (\<exists>pre post. t = pre @ w @ post
        \<and> (pre = [] \<or> is_whitespace (last pre))
        \<and> (post = [] \<or> class_matches items (hd post)))"

definition spec_trailing_items :: "class_item list" where
  "spec_trailing_items =
     [CChar (ch CHR '' ''), CChar (ch CHR ''.''), CChar (ch CHR '',''), CChar (ch CHR ''!''),
      CChar (ch CHR ''?''), CChar (ch CHR '';''), CChar (ch CHR '':'')]"

text \<open>
  The expression \<open>(^|\s)w([items]|$)\<close>, and \<open>w\<close> at the head of a text followed by
  the end or by a code unit of \<open>items\<close>.
\<close>

definition token_pattern :: "class_item list \<Rightarrow> jsstring \<Rightarrow> pattern" where
  "token_pattern items w = [boundary_before # map Lit w @ [Group [[CharClass False items], [Eol]]]]"

definition token_here :: "class_item list \<Rightarrow> jsstring \<Rightarrow> jsstring \<Rightarrow> bool" where
  "token_here items w r = (\<exists>post. r = w @ post \<and> (post = [] \<or> class_matches items (hd post)))"

text \<open>A text contains \<open>w\<close> as a substring.\<close>

definition contains_literal :: "jsstring \<Rightarrow> jsstring \<Rightarrow> bool" where
  "contains_literal w t = (\<exists>pre post. t = pre @ w @ post)"

subsection \<open>The runtime's expression engine as a parameter\<close>

text \<open>
  The syntax characters of the pattern grammar of ECMAScript:
  \<open>^ $ \ . * + ? ( ) [ ] { } |\<close>.
\<close>

definition is_syntax_character :: "jschar \<Rightarrow> bool" where
  "is_syntax_character c =
     (c = ch CHR ''^'' \<or> c = ch CHR ''$'' \<or> c = 0x5C \<or> c = ch CHR ''.''
      \<or> c = ch CHR ''*'' \<or> c = ch CHR ''+'' \<or> c = ch CHR ''?'' \<or> c = ch CHR ''(''
      \<or> c = ch CHR '')'' \<or> c = ch CHR ''['' \<or> c = ch CHR '']'' \<or> c = ch CHR ''{''
      \<or> c = ch CHR ''}'' \<or> c = ch CHR ''|'')"

text \<open>
  A source text that consists of literal atoms only, and the code units that the atoms
  stand for: a code unit that is no syntax character stands for itself, a backslash
  followed by a syntax character stands for that character. Any other source text has
  more in it than literal atoms, and the answer is \<open>None\<close>.
\<close>

fun literal_atoms :: "jsstring \<Rightarrow> jsstring option" where
  "literal_atoms [] = Some []"
| "literal_atoms [c] = (if is_syntax_character c then None else Some [c])"
| "literal_atoms (c # d # cs) =
     (if c = 0x5C then
        (if is_syntax_character d then map_option ((#) d) (literal_atoms cs) else None)
      else if is_syntax_character c then None
      else map_option ((#) c) (literal_atoms (d # cs)))"

text \<open>
  Modelled from the spec: the expression engine of the runtime,
  \<open>new RegExp(source).test(text)\<close>, which is not code of this repository. An engine is
  a function from a source text and a subject to the thrown error or to the answer of
  \<open>test\<close>. The sentence of the spec on \<open>escapeRegExp\<close> rests on one fact about the
  engine: an expression constructed from literal atoms matches a literal occurrence of
  the code units they stand for, and only literal occurrences. \<open>literal_runtime\<close> says
  that of an engine.
\<close>

definition literal_runtime :: "(jsstring \<Rightarrow> jsstring \<Rightarrow> js_error + bool) \<Rightarrow> bool" where
  "literal_runtime test =
     (\<forall>source w t. literal_atoms source = Some w \<longrightarrow> test source t = Inr (contains_literal w t))"

text \<open>The engine that the reader and the matcher above make up.\<close>

definition RegExp_test :: "jsstring \<Rightarrow> jsstring \<Rightarrow> js_error + bool" where
  "RegExp_test source t =
     (case RegExp_new source of
        Inl e \<Rightarrow> Inl e
      | Inr p \<Rightarrow> Inr (regex_test p t))"

section \<open>Actor authorization\<close>

text \<open>
  \<open>checkAllowedActor\<close> and \<open>checkWritePermissions\<close> of \<open>src/github/validation\<close>.
  The Octokit client is a pair of functions, one for each endpoint that the two checks
  call: a call either throws or returns the field that the check reads
  (\<open>data.type\<close> of the user, \<open>data.permission\<close> of the collaborator). Each check
  returns the list of the calls it made together with its outcome, so that a check that
  must not call the API can be told from one that does. Log lines are not part of the model.
\<close>

datatype api_call =
    GetByUsername jsstring
  | GetCollaboratorPermissionLevel jsstring jsstring jsstring

record octokit =
  users_getByUsername :: "jsstring \<Rightarrow> js_error + jsstring"
  repos_getCollaboratorPermissionLevel :: "jsstring \<Rightarrow> jsstring \<Rightarrow> jsstring \<Rightarrow> js_error + jsstring"

text \<open>\<open>Array.prototype.join\<close> on an array of strings.\<close>

fun join :: "jsstring \<Rightarrow> jsstring list \<Rightarrow> jsstring" where
  "join sep [] = []"
| "join sep [x] = x"
| "join sep (x # y # ys) = x @ sep @ join sep (y # ys)"

text \<open>
  What \<open>${error}\<close> makes of a thrown error: its name, a colon and its message, or the
  name alone when the message is empty.
\<close>

fun error_name :: "js_error \<Rightarrow> jsstring" where
  "error_name (Error m) = str ''Error''"
| "error_name (SyntaxError m) = str ''SyntaxError''"
| "error_name (TypeError m) = str ''TypeError''"
| "error_name (NotModelled m) = str ''NotModelled''"

fun error_message :: "js_error \<Rightarrow> jsstring" where
  "error_message (Error m) = m"
| "error_message (SyntaxError m) = m"
| "error_message (TypeError m) = m"
| "error_message (NotModelled m) = m"

definition error_to_string :: "js_error \<Rightarrow> jsstring" where
  "error_to_string e =
     (if error_message e = [] then error_name e
      else error_name e @ str '': '' @ error_message e)"

subsection \<open>checkAllowedActor\<close>

definition unauthorized_message :: "jsstring \<Rightarrow> jsstring \<Rightarrow> jsstring list \<Rightarrow> jsstring" where
  "unauthorized_message login actorType botNames =
     str ''Workflow initiated by unauthorized actor: '' @ login @ str '' (type: '' @ actorType
       @ str ''). '' @ str ''Only human users and whitelisted bots are allowed.''
       @ (if length botNames > 0
          then str '' Allowed bots: '' @ join (str '', '') botNames
          else [])"

definition checkAllowedActor :: "octokit \<Rightarrow> ParsedGitHubContext \<Rightarrow> api_call list \<times> (js_error + unit)" where
  "checkAllowedActor octokit githubContext =
     (case users_getByUsername octokit (actor githubContext) of
        Inl e \<Rightarrow> ([GetByUsername (actor githubContext)], Inl e)
      | Inr actorType \<Rightarrow>
          ([GetByUsername (actor githubContext)],
           if actorType = str ''User'' then Inr ()
           else if actorType = str ''Bot''
                   \<and> length (allowedBotNames (inputs githubContext)) > 0
                   \<and> actor githubContext \<in> set (allowedBotNames (inputs githubContext))
             then Inr ()
           else Inl (Error (unauthorized_message (actor githubContext) actorType
                              (allowedBotNames (inputs githubContext))))))"

subsection \<open>checkWritePermissions\<close>

definition checkWritePermissions :: "octokit \<Rightarrow> ParsedGitHubContext \<Rightarrow> api_call list \<times> (js_error + bool)" where
  "checkWritePermissions octokit context =
     (if actor context \<in> set (allowedBotNames (inputs context)) then ([], Inr True)
      else
        (case repos_getCollaboratorPermissionLevel octokit
                (owner (repository context)) (repo (repository context)) (actor context) of
           Inl error \<Rightarrow>
             ([GetCollaboratorPermissionLevel
                 (owner (repository context)) (repo (repository context)) (actor context)],
              Inl (Error (str ''Failed to check permissions for '' @ actor context @ str '': ''
                          @ error_to_string error)))
         | Inr permissionLevel \<Rightarrow>
             ([GetCollaboratorPermissionLevel
                 (owner (repository context)) (repo (repository context)) (actor context)],
              if permissionLevel = str ''admin'' \<or> permissionLevel = str ''write''
              then Inr True else Inr False)))"

section \<open>The runtime's JSON.parse\<close>

text \<open>
  The tool dispatcher hands the environment variable \<open>AI_ENV\<close> to \<open>JSON.parse\<close>.
  A JSON value keeps a number as the text that denotes it; an object keeps its members
  in the order of the text, the last member of a name being the one that counts. A text
  that is not JSON makes \<open>JSON.parse\<close> throw a \<open>SyntaxError\<close>; the wording of its
  message differs between engines, and the messages below stand for it.
\<close>

datatype json =
    JNull
  | JBool bool
  | JNumber jsstring
  | JString jsstring
  | JArray "json list"
  | JObject "(jsstring \<times> json) list"

datatype jtoken =
    TLBrace | TRBrace | TLBracket | TRBracket | TColon | TComma
  | TString jsstring
  | TNumber jsstring
  | TTrue | TFalse | TNull

subsection \<open>Numbers\<close>

text \<open>
  The number grammar: an optional minus, \<open>0\<close> or a digit sequence without leading zero,
  an optional fraction, an optional exponent.
\<close>

datatype nstate =
    NStart | NMinus | NZero | NInt | NDot | NFrac | NExp | NExpSign | NExpDigits | NBad

definition nstep :: "nstate \<Rightarrow> jschar \<Rightarrow> nstate" where
  "nstep s c =
     (case s of
        NStart \<Rightarrow> if c = ch CHR ''-'' then NMinus else if c = ch CHR ''0'' then NZero
                  else if is_digit c then NInt else NBad
      | NMinus \<Rightarrow> if c = ch CHR ''0'' then NZero else if is_digit c then NInt else NBad
      | NZero \<Rightarrow> if c = ch CHR ''.'' then NDot
                 else if c = ch CHR ''e'' \<or> c = ch CHR ''E'' then NExp else NBad
      | NInt \<Rightarrow> if is_digit c then NInt else if c = ch CHR ''.'' then NDot
                else if c = ch CHR ''e'' \<or> c = ch CHR ''E'' then NExp else NBad
      | NDot \<Rightarrow> if is_digit c then NFrac else NBad
      | NFrac \<Rightarrow> if is_digit c then NFrac
                 else if c = ch CHR ''e'' \<or> c = ch CHR ''E'' then NExp else NBad
      | NExp \<Rightarrow> if c = ch CHR ''+'' \<or> c = ch CHR ''-'' then NExpSign
                else if is_digit c then NExpDigits else NBad
      | NExpSign \<Rightarrow> if is_digit c then NExpDigits else NBad
      | NExpDigits \<Rightarrow> if is_digit c then NExpDigits else NBad
      | NBad \<Rightarrow> NBad)"

definition valid_number :: "jsstring \<Rightarrow> bool" where
  "valid_number s = (foldl nstep NStart s \<in> {NZero, NInt, NFrac, NExpDigits})"

definition is_number_char :: "jschar \<Rightarrow> bool" where
  "is_number_char c =
     (is_digit c \<or> c = ch CHR ''-'' \<or> c = ch CHR ''+'' \<or> c = ch CHR ''.''
      \<or> c = ch CHR ''e'' \<or> c = ch CHR ''E'')"

subsection \<open>Tokens\<close>

datatype lmode =
    LIdle
  | LString jsstring
  | LEscape jsstring
  | LUnicode jsstring "nat list"
  | LNumber jsstring
  | LWord jsstring

definition is_json_space :: "jschar \<Rightarrow> bool" where
  "is_json_space c = (c = 0x20 \<or> c = 0x09 \<or> c = 0x0A \<or> c = 0x0D)"

definition is_lower :: "jschar \<Rightarrow> bool" where
  "is_lower c = (0x61 \<le> c \<and> c \<le> 0x7A)"

definition simple_escape :: "jschar \<Rightarrow> jschar option" where
  "simple_escape c =
     (if c = 0x22 \<or> c = 0x5C \<or> c = ch CHR ''/'' then Some c
      else if c = ch CHR ''b'' then Some 0x08
      else if c = ch CHR ''f'' then Some 0x0C
      else if c = ch CHR ''n'' then Some 0x0A
      else if c = ch CHR ''r'' then Some 0x0D
      else if c = ch CHR ''t'' then Some 0x09
      else None)"

definition hex_val :: "jschar \<Rightarrow> nat option" where
  "hex_val c =
     (if is_digit c then Some (unat c - 48)
      else if 0x61 \<le> c \<and> c \<le> 0x66 then Some (unat c - 87)
      else if 0x41 \<le> c \<and> c \<le> 0x46 then Some (unat c - 55)
      else None)"

definition hex_unit :: "nat list \<Rightarrow> jschar" where
  "hex_unit ds = of_nat (foldl (\<lambda>acc d. acc * 16 + d) 0 ds)"

definition emit_number :: "jsstring \<Rightarrow> jtoken list \<Rightarrow> js_error + jtoken list" where
  "emit_number acc toks =
     (if valid_number acc then Inr (toks @ [TNumber acc])
      else Inl (SyntaxError (str ''No number after minus sign or bad number in JSON'')))"

definition emit_word :: "jsstring \<Rightarrow> jtoken list \<Rightarrow> js_error + jtoken list" where
  "emit_word acc toks =
     (if acc = str ''true'' then Inr (toks @ [TTrue])
      else if acc = str ''false'' then Inr (toks @ [TFalse])
      else if acc = str ''null'' then Inr (toks @ [TNull])
      else Inl (SyntaxError (str ''Unexpected token in JSON'')))"

definition idle_step :: "jtoken list \<Rightarrow> jschar \<Rightarrow> js_error + lmode \<times> jtoken list" where
  "idle_step toks c =
     (if is_json_space c then Inr (LIdle, toks)
      else if c = ch CHR ''{'' then Inr (LIdle, toks @ [TLBrace])
      else if c = ch CHR ''}'' then Inr (LIdle, toks @ [TRBrace])
      else if c = ch CHR ''['' then Inr (LIdle, toks @ [TLBracket])
      else if c = ch CHR '']'' then Inr (LIdle, toks @ [TRBracket])
      else if c = ch CHR '':'' then Inr (LIdle, toks @ [TColon])
      else if c = ch CHR '','' then Inr (LIdle, toks @ [TComma])
      else if c = 0x22 then Inr (LString [], toks)
      else if c = ch CHR ''-'' \<or> is_digit c then Inr (LNumber [c], toks)
      else if is_lower c then Inr (LWord [c], toks)
      else Inl (SyntaxError (str ''Unexpected token in JSON'')))"

fun lex_step :: "lmode \<times> jtoken list \<Rightarrow> jschar \<Rightarrow> js_error + lmode \<times> jtoken list" where
  "lex_step (LIdle, toks) c = idle_step toks c"
| "lex_step (LString acc, toks) c =
     (if c = 0x22 then Inr (LIdle, toks @ [TString acc])
      else if c = 0x5C then Inr (LEscape acc, toks)
      else if c < 0x20 then Inl (SyntaxError (str ''Bad control character in string literal in JSON''))
      else Inr (LString (acc @ [c]), toks))"
| "lex_step (LEscape acc, toks) c =
     (case simple_escape c of
        Some d \<Rightarrow> Inr (LString (acc @ [d]), toks)
      | None \<Rightarrow>
          if c = ch CHR ''u'' then Inr (LUnicode acc [], toks)
          else Inl (SyntaxError (str ''Bad escaped character in JSON'')))"
| "lex_step (LUnicode acc ds, toks) c =
     (case hex_val c of
        None \<Rightarrow> Inl (SyntaxError (str ''Bad Unicode escape in JSON''))
      | Some d \<Rightarrow>
          if length ds = 3 then Inr (LString (acc @ [hex_unit (ds @ [d])]), toks)
          else Inr (LUnicode acc (ds @ [d]), toks))"
| "lex_step (LNumber acc, toks) c =
     (if is_number_char c then Inr (LNumber (acc @ [c]), toks)
      else (case emit_number acc toks of
              Inl e \<Rightarrow> Inl e
            | Inr toks' \<Rightarrow> idle_step toks' c))"
| "lex_step (LWord acc, toks) c =
     (if is_lower c then Inr (LWord (acc @ [c]), toks)
      else (case emit_word acc toks of
              Inl e \<Rightarrow> Inl e
            | Inr toks' \<Rightarrow> idle_step toks' c))"

fun lex_finish :: "lmode \<times> jtoken list \<Rightarrow> js_error + jtoken list" where
  "lex_finish (LIdle, toks) = Inr toks"
| "lex_finish (LNumber acc, toks) = emit_number acc toks"
| "lex_finish (LWord acc, toks) = emit_word acc toks"
| "lex_finish (m, toks) = Inl (SyntaxError (str ''Unterminated string in JSON''))"

fun lex_run :: "lmode \<times> jtoken list \<Rightarrow> jsstring \<Rightarrow> js_error + jtoken list" where
  "lex_run st [] = lex_finish st"
| "lex_run st (c # cs) =
     (case lex_step st c of
        Inl e \<Rightarrow> Inl e
      | Inr st' \<Rightarrow> lex_run st' cs)"

subsection \<open>Values\<close>

text \<open>
  A pushdown automaton over the tokens: the stack holds the arrays and objects that are
  open, an object together with the member name that waits for its value.
\<close>

datatype jframe =
    FArray "json list"
  | FObject "(jsstring \<times> json) list" "jsstring option"

datatype jmode = JValue | JArrayStart | JObjectStart | JKey | JColon | JAfterValue | JDone json

definition unexpected :: "js_error + jmode \<times> jframe list" where
  "unexpected = Inl (SyntaxError (str ''Unexpected token in JSON''))"

fun complete :: "json \<Rightarrow> jframe list \<Rightarrow> js_error + jmode \<times> jframe list" where
  "complete v [] = Inr (JDone v, [])"
| "complete v (FArray vs # st) = Inr (JAfterValue, FArray (vs @ [v]) # st)"
| "complete v (FObject ms (Some k) # st) = Inr (JAfterValue, FObject (ms @ [(k, v)]) None # st)"
| "complete v (FObject ms None # st) = unexpected"

fun value_token :: "jtoken \<Rightarrow> jframe list \<Rightarrow> js_error + jmode \<times> jframe list" where
  "value_token (TString s) st = complete (JString s) st"
| "value_token (TNumber n) st = complete (JNumber n) st"
| "value_token TTrue st = complete (JBool True) st"
| "value_token TFalse st = complete (JBool False) st"
| "value_token TNull st = complete JNull st"
| "value_token TLBracket st = Inr (JArrayStart, FArray [] # st)"
| "value_token TLBrace st = Inr (JObjectStart, FObject [] None # st)"
| "value_token tok st = unexpected"

fun key_token :: "jtoken \<Rightarrow> jframe list \<Rightarrow> js_error + jmode \<times> jframe list" where
  "key_token (TString k) (FObject ms pending # st) = Inr (JColon, FObject ms (Some k) # st)"
| "key_token tok st = unexpected"

fun close_array :: "jframe list \<Rightarrow> js_error + jmode \<times> jframe list" where
  "close_array (FArray vs # st) = complete (JArray vs) st"
| "close_array st = unexpected"

fun close_object :: "jframe list \<Rightarrow> js_error + jmode \<times> jframe list" where
  "close_object (FObject ms None # st) = complete (JObject ms) st"
| "close_object st = unexpected"

fun after_value :: "jtoken \<Rightarrow> jframe list \<Rightarrow> js_error + jmode \<times> jframe list" where
  "after_value tok [] = unexpected"
| "after_value tok (FArray vs # st) =
     (if tok = TComma then Inr (JValue, FArray vs # st)
      else if tok = TRBracket then close_array (FArray vs # st)
      else unexpected)"
| "after_value tok (FObject ms pending # st) =
     (if tok = TComma then Inr (JKey, FObject ms pending # st)
      else if tok = TRBrace then close_object (FObject ms pending # st)
      else unexpected)"

fun jstep :: "jmode \<times> jframe list \<Rightarrow> jtoken \<Rightarrow> js_error + jmode \<times> jframe list" where
  "jstep (JValue, st) tok = value_token tok st"
| "jstep (JArrayStart, st) tok = (if tok = TRBracket then close_array st else value_token tok st)"
| "jstep (JObjectStart, st) tok = (if tok = TRBrace then close_object st else key_token tok st)"
| "jstep (JKey, st) tok = key_token tok st"
| "jstep (JColon, st) tok = (if tok = TColon then Inr (JValue, st) else unexpected)"
| "jstep (JAfterValue, st) tok = after_value tok st"
| "jstep (JDone v, st) tok =
     Inl (SyntaxError (str ''Unexpected non-whitespace character after JSON''))"

fun jfinish :: "jmode \<times> jframe list \<Rightarrow> js_error + json" where
  "jfinish (JDone v, st) = Inr v"
| "jfinish (m, st) = Inl (SyntaxError (str ''Unexpected end of JSON input''))"

fun jrun :: "jmode \<times> jframe list \<Rightarrow> jtoken list \<Rightarrow> js_error + json" where
  "jrun st [] = jfinish st"
| "jrun st (tok # toks) =
     (case jstep st tok of
        Inl e \<Rightarrow> Inl e
      | Inr st' \<Rightarrow> jrun st' toks)"

definition JSON_parse :: "jsstring \<Rightarrow> js_error + json" where
  "JSON_parse text =
     (case lex_run (LIdle, []) text of
        Inl e \<Rightarrow> Inl e
      | Inr toks \<Rightarrow> jrun (JValue, []) toks)"

section \<open>The tool dispatcher\<close>

text \<open>
  \<open>getCliToolConfig\<close> and \<open>executeCliTool\<close> of the CLI entry point. The process
  environment is a map from names to strings. Console output is not part of the model.
\<close>

type_synonym environment = "jsstring \<rightharpoonup> jsstring"

text \<open>\<open>process.env.NAME || fallback\<close>: an unset or empty variable gives the fallback.\<close>

definition env_or :: "environment \<Rightarrow> jsstring \<Rightarrow> jsstring \<Rightarrow> jsstring" where
  "env_or env name fallback =
     (case env name of
        None \<Rightarrow> fallback
      | Some v \<Rightarrow> if v = [] then fallback else v)"

text \<open>Decimal digits of an array index and of an exit status.\<close>

function decimal :: "nat \<Rightarrow> jsstring" where
  "decimal n = (if n < 10 then [of_nat (48 + n)] else decimal (n div 10) @ [of_nat (48 + n mod 10)])"
  by pat_completeness auto
termination
  by (relation "measure id") auto

definition decimal_int :: "int \<Rightarrow> jsstring" where
  "decimal_int i = (if i < 0 then ch CHR ''-'' # decimal (nat (- i)) else decimal (nat i))"

text \<open>
  The properties that an object spread \<open>...value\<close> copies: the members of an object,
  the elements of an array under their indices, the code units of a string under their
  indices, and nothing of a number, a boolean or null.
\<close>

fun spread :: "json \<Rightarrow> (jsstring \<times> json) list" where
  "spread (JObject ms) = ms"
| "spread (JArray vs) = zip (map decimal [0..<length vs]) vs"
| "spread (JString s) = zip (map decimal [0..<length s]) (map (\<lambda>c. JString [c]) s)"
| "spread v = []"

text \<open>\<open>...(aiEnv ? JSON.parse(aiEnv) : {})\<close>.\<close>

definition ai_env_entries :: "jsstring \<Rightarrow> js_error + (jsstring \<times> json) list" where
  "ai_env_entries aiEnv =
     (if aiEnv \<noteq> [] then
        (case JSON_parse aiEnv of
           Inl e \<Rightarrow> Inl e
         | Inr v \<Rightarrow> Inr (spread v))
      else Inr [])"

text \<open>
  \<open>envSetup\<close> lists the properties in the order in which the object literal sets them;
  a later entry of a name replaces an earlier one.
\<close>

record CliToolConfig =
  command :: jsstring
  installCommand :: "jsstring list option"
  args :: "jsstring list"
  envSetup :: "(jsstring \<times> json) list option"

subsection \<open>getCliToolConfig\<close>

definition unsupported_message :: "jsstring \<Rightarrow> jsstring" where
  "unsupported_message cliTool =
     str ''Unsupported CLI tool: '' @ cliTool
       @ str ''. Supported tools: claude-cli, gemini-cli, codex-cli, augment-cli''"

definition claude_args :: "environment \<Rightarrow> jsstring list" where
  "claude_args env =
     [str ''@anthropic-ai/claude-code'',
      str ''--prompt-file'', env_or env (str ''PROMPT_FILE'') [],
      str ''--allowed-tools'', env_or env (str ''ALLOWED_TOOLS'') [],
      str ''--disallowed-tools'', env_or env (str ''DISALLOWED_TOOLS'') [],
      str ''--timeout-minutes'', env_or env (str ''TIMEOUT_MINUTES'') (str ''30'')]
     @ (if env_or env (str ''MAX_TURNS'') [] \<noteq> []
        then [str ''--max-turns'', env_or env (str ''MAX_TURNS'') []] else [])
     @ (if env_or env (str ''MODEL'') [] \<noteq> []
        then [str ''--model'', env_or env (str ''MODEL'') []] else [])
     @ (if env_or env (str ''MCP_CONFIG'') [] \<noteq> []
        then [str ''--mcp-config'', env_or env (str ''MCP_CONFIG'') []] else [])
     @ (if env (str ''USE_BEDROCK'') = Some (str ''true'') then [str ''--use-bedrock''] else [])
     @ (if env (str ''USE_VERTEX'') = Some (str ''true'') then [str ''--use-vertex''] else [])"

definition gemini_args :: "environment \<Rightarrow> jsstring list" where
  "gemini_args env =
     [str ''@google-ai/generativelanguage'',
      str ''--input-file'', env_or env (str ''PROMPT_FILE'') [],
      str ''--model'', (if env_or env (str ''MODEL'') [] \<noteq> []
                        then env_or env (str ''MODEL'') [] else str ''gemini-pro''),
      str ''--max-tokens'', str ''2048'',
      str ''--timeout'', env_or env (str ''TIMEOUT_MINUTES'') (str ''30'')]"

definition codex_args :: "environment \<Rightarrow> jsstring list" where
  "codex_args env =
     [str ''@openai/codex'',
      str ''exec'',
      str ''--full-auto'',
      str ''Read and execute: '' @ env_or env (str ''PROMPT_FILE'') []]"

definition augment_args :: "environment \<Rightarrow> jsstring list" where
  "augment_args env =
     [str ''openai'',
      str ''api'',
      str ''completions.create'',
      str ''-m'', (if env_or env (str ''MODEL'') [] \<noteq> []
                   then env_or env (str ''MODEL'') [] else str ''gpt-4''),
      str ''--prompt'', str ''$(cat '' @ env_or env (str ''PROMPT_FILE'') [] @ str '')'',
      str ''--max-tokens'', str ''2048'']"

text \<open>
  One case of the \<open>switch\<close>: the object literal is evaluated property by property, and
  the spread of \<open>JSON.parse(aiEnv)\<close> in \<open>envSetup\<close> is the one step that can throw.
\<close>

definition tool_config :: "environment \<Rightarrow> jsstring \<Rightarrow> jsstring list \<Rightarrow> jsstring \<Rightarrow> jsstring
    \<Rightarrow> js_error + CliToolConfig" where
  "tool_config env package arguments keyName modelName =
     (case ai_env_entries (env_or env (str ''AI_ENV'') []) of
        Inl e \<Rightarrow> Inl e
      | Inr extra \<Rightarrow>
          Inr \<lparr>command = str ''npx'',
               installCommand = Some [str ''npm'', str ''install'', str ''-g'', package],
               args = arguments,
               envSetup = Some ([(keyName, JString (env_or env (str ''API_KEY'') [])),
                                 (modelName, JString (env_or env (str ''MODEL'') []))] @ extra)\<rparr>)"

definition getCliToolConfig :: "environment \<Rightarrow> jsstring \<Rightarrow> js_error + CliToolConfig" where
  "getCliToolConfig env cliTool =
     (if cliTool = str ''claude-cli'' then
        tool_config env (str ''@anthropic-ai/claude-code'') (claude_args env)
          (str ''ANTHROPIC_API_KEY'') (str ''ANTHROPIC_MODEL'')
      else if cliTool = str ''gemini-cli'' then
        tool_config env (str ''@google-ai/generativelanguage'') (gemini_args env)
          (str ''GOOGLE_API_KEY'') (str ''GOOGLE_AI_MODEL'')
      else if cliTool = str ''codex-cli'' then
        tool_config env (str ''@openai/codex'') (codex_args env)
          (str ''OPENAI_API_KEY'') (str ''OPENAI_MODEL'')
      else if cliTool = str ''augment-cli'' then
        tool_config env (str ''openai'') (augment_args env)
          (str ''OPENAI_API_KEY'') (str ''OPENAI_MODEL'')
      else Inl (Error (unsupported_message cliTool)))"

definition supported_tools :: "jsstring list" where
  "supported_tools = [str ''claude-cli'', str ''gemini-cli'', str ''codex-cli'', str ''augment-cli'']"

subsection \<open>executeCliTool\<close>

text \<open>
  What the function reaches of the world outside: the process environment, the working
  directory, the child process, the file system as the child left it, \<open>path.join\<close> and
  the clock. \<open>process.cwd()\<close> throws when the working directory is gone.
  \<open>spawnSync\<close> throws on arguments that it refuses, such as a command, an argument or
  an environment value that holds a NUL code unit; otherwise it answers with the exit
  status of the child, or with null when a signal ended the child or it could not be
  started. \<open>existsSync\<close> never throws. A write either succeeds or throws. The content
  of the file is the value that \<open>JSON.stringify\<close> is given.
\<close>

record runtime =
  process_env :: environment
  process_cwd :: "js_error + jsstring"
  spawnSync :: "jsstring \<Rightarrow> jsstring list \<Rightarrow> (jsstring \<rightharpoonup> json) \<Rightarrow> jsstring
                 \<Rightarrow> js_error + int option"
  existsSync :: "jsstring \<Rightarrow> bool"
  writeFileSync :: "jsstring \<Rightarrow> json \<Rightarrow> js_error option"
  path_join :: "jsstring \<Rightarrow> jsstring \<Rightarrow> jsstring"
  now_iso :: jsstring

text \<open>\<open>{...process.env, ...config.envSetup}\<close>.\<close>

definition child_env :: "environment \<Rightarrow> (jsstring \<times> json) list option \<Rightarrow> (jsstring \<rightharpoonup> json)" where
  "child_env env setup =
     (\<lambda>name. case map_of (rev (case setup of None \<Rightarrow> [] | Some entries \<Rightarrow> entries)) name of
        Some v \<Rightarrow> Some v
      | None \<Rightarrow> map_option JString (env name))"

definition status_json :: "int option \<Rightarrow> json" where
  "status_json status = (case status of None \<Rightarrow> JNull | Some n \<Rightarrow> JNumber (decimal_int n))"

text \<open>The path of the output file.\<close>

definition output_path :: "runtime \<Rightarrow> jsstring" where
  "output_path rt =
     path_join rt (env_or (process_env rt) (str ''RUNNER_TEMP'') (str ''/tmp''))
       (str ''ai-execution-output.json'')"

text \<open>
  The part of the function after \<open>spawnSync\<close> has answered: the conclusion, the output
  file when none exists, the result.
\<close>

definition conclude :: "runtime \<Rightarrow> CliToolConfig \<Rightarrow> int option
    \<Rightarrow> (jsstring \<times> json) list \<times> (js_error + jsstring \<times> jsstring)" where
  "conclude rt config status =
     (let outputFile = output_path rt;
          conclusion = (if status = Some 0 then str ''success'' else str ''failure'')
      in if \<not> existsSync rt outputFile then
           (let outputData =
                  JArray [JObject
                    [(str ''type'', JString (str ''result'')),
                     (str ''status'', JString conclusion),
                     (str ''exit_code'', status_json status),
                     (str ''command'',
                        JString (command config @ str '' '' @ join (str '' '') (args config))),
                     (str ''timestamp'', JString (now_iso rt))]]
            in case writeFileSync rt outputFile outputData of
                 Some e \<Rightarrow> ([(outputFile, outputData)], Inl e)
               | None \<Rightarrow> ([(outputFile, outputData)], Inr (outputFile, conclusion)))
         else ([], Inr (outputFile, conclusion)))"

text \<open>
  The whole function. The options of \<open>spawnSync\<close> are evaluated first, so a throwing
  \<open>process.cwd()\<close> ends the function before the child is started; a throwing
  \<open>spawnSync\<close> ends it before any conclusion exists.
\<close>

definition executeCliTool :: "runtime \<Rightarrow> CliToolConfig
    \<Rightarrow> (jsstring \<times> json) list \<times> (js_error + jsstring \<times> jsstring)" where
  "executeCliTool rt config =
     (case process_cwd rt of
        Inl e \<Rightarrow> ([], Inl e)
      | Inr cwd \<Rightarrow>
          (case spawnSync rt (command config) (args config)
                  (child_env (process_env rt) (envSetup config)) cwd of
             Inl e \<Rightarrow> ([], Inl e)
           | Inr status \<Rightarrow> conclude rt config status))"

section \<open>Example inputs\<close>

text \<open>
  The helpers of \<open>test/actor.test.ts\<close>: \<open>createContext(actor, allowedBotNames)\<close>
  and \<open>createMockOctokit(userType)\<close>, the latter with a permission level for the
  collaborator endpoint as well, or with a failure of that endpoint.
\<close>

definition createContext :: "jsstring \<Rightarrow> jsstring list \<Rightarrow> ParsedGitHubContext" where
  "createContext login botNames =
     \<lparr>eventAction = Some (str ''created''),
      repository = \<lparr>owner = str ''test-owner'', repo = str ''test-repo''\<rparr>,
      actor = login,
      payload = IssueCommentEvent (str ''@claude test''),
      inputs = \<lparr>triggerPhrase = str ''@claude'', assigneeTrigger = [],
                directPrompt = [], allowedBotNames = botNames\<rparr>\<rparr>"

definition createMockOctokit :: "jsstring \<Rightarrow> js_error + jsstring \<Rightarrow> octokit" where
  "createMockOctokit userType permission =
     \<lparr>users_getByUsername = (\<lambda>username. Inr userType),
      repos_getCollaboratorPermissionLevel = (\<lambda>owner repo username. permission)\<rparr>"

text \<open>
  A runner whose \<open>spawnSync\<close> has the given outcome, where no output file exists after
  the run and every write succeeds; and the configuration of \<open>codex-cli\<close> that
  \<open>test-cli-tools.js\<close> runs.
\<close>

definition example_runtime :: "js_error + int option \<Rightarrow> runtime" where
  "example_runtime outcome =
     \<lparr>process_env = [str ''RUNNER_TEMP'' \<mapsto> str ''/home/runner/work/_temp''],
      process_cwd = Inr (str ''/home/runner/work/repo''),
      spawnSync = (\<lambda>cmd arguments env cwd. outcome),
      existsSync = (\<lambda>path. False),
      writeFileSync = (\<lambda>path data. None),
      path_join = (\<lambda>dir name. dir @ str ''/'' @ name),
      now_iso = str ''2025-01-01T00:00:00.000Z''\<rparr>"

definition example_config :: CliToolConfig where
  "example_config =
     \<lparr>command = str ''npx'',
      installCommand = None,
      args = [str ''@openai/codex'', str ''exec'', str ''--full-auto'',
              str ''Read and execute: ./test-prompt.txt''],
      envSetup = Some [(str ''OPENAI_API_KEY'', JString (str ''sk-test''))]\<rparr>"

section \<open>The reader on escaped text\<close>

lemma special_iff:
  "class_matches special_items c \<longleftrightarrow>
     (c = 0x2E \<or> c = 0x2A \<or> c = 0x2B \<or> c = 0x3F \<or> c = 0x5E \<or> c = 0x24 \<or> c = 0x7B
      \<or> c = 0x7D \<or> c = 0x28 \<or> c = 0x29 \<or> c = 0x7C \<or> c = 0x5B \<or> c = 0x5D \<or> c = 0x5C)"
  by (simp add: class_matches_def special_items_def)

lemma main_step_plain:
  "\<not> class_matches special_items c \<Longrightarrow>
   main_step fr stack c = Inr (PState MMain (add_node (Lit c) fr) stack)"
  by (simp add: special_iff main_step_def)

lemma escape_node_special:
  "class_matches special_items c \<Longrightarrow> escape_node c = Inr (Lit c)"
  by (auto simp add: special_iff escape_node_def is_digit_def)

text \<open>
  An escaped string is read as the sequence of its own code units, whatever frame and
  stack the reader is in and whatever follows.
\<close>

lemma parse_run_escaped:
  "parse_run (PState MMain (Frame alts cur) stack) (escapeRegExp s @ rest) =
   parse_run (PState MMain (Frame alts (cur @ map Lit s)) stack) rest"
proof (induction s arbitrary: cur)
  case Nil
  then show ?case by (simp add: escapeRegExp_def)
next
  case (Cons c s)
  have step: "escapeRegExp (c # s) =
      (if class_matches special_items c then [0x5C, c] else [c]) @ escapeRegExp s"
    by (simp add: escapeRegExp_def)
  show ?case
  proof (cases "class_matches special_items c")
    case True
    then show ?thesis
      using Cons.IH [of "cur @ [Lit c]"]
      by (simp add: step escape_node_special main_step_def)
  next
    case False
    then show ?thesis
      using Cons.IH [of "cur @ [Lit c]"]
      by (simp add: step main_step_plain)
  qed
qed

lemma RegExp_new_escaped: "RegExp_new (escapeRegExp s) = Inr [map Lit s]"
  using parse_run_escaped [of "[]" "[]" "[]" s "[]"]
  by (simp add: RegExp_new_def)

lemma boundary_pattern_eq: "boundary_pattern w = token_pattern trailing_items w"
  by (simp add: boundary_pattern_def token_pattern_def boundary_after_def)

lemma trigger_source_parse: "RegExp_new (trigger_source w) = Inr (boundary_pattern w)"
  by (simp add: RegExp_new_def trigger_source_def str_def main_step_def escape_node_def
      parse_run_escaped class_step_def class_escape_item_def boundary_pattern_def
      boundary_before_def boundary_after_def trailing_items_def)

text \<open>The regular expression literals of the source read as the patterns of the model.\<close>

lemma special_source_parse: "RegExp_new special_source = Inr [[CharClass False special_items]]"
  by (simp add: RegExp_new_def special_source_def str_def main_step_def class_step_def
      class_escape_item_def special_items_def is_digit_def)

lemma augmentRegex_source_parse: "RegExp_new augmentRegex_source = Inr augmentRegex"
  by (simp add: RegExp_new_def augmentRegex_source_def augmentRegex_def str_def main_step_def
      escape_node_def class_step_def class_escape_item_def boundary_pattern_def
      boundary_before_def boundary_after_def trailing_items_def)

lemma claudeRegex_source_parse: "RegExp_new claudeRegex_source = Inr claudeRegex"
  by (simp add: RegExp_new_def claudeRegex_source_def claudeRegex_def str_def main_step_def
      escape_node_def class_step_def class_escape_item_def boundary_pattern_def
      boundary_before_def boundary_after_def trailing_items_def)

section \<open>What the trigger expressions match\<close>

lemma run_terms_Nil: "run_terms ns [] = []"
  by (induction ns) simp_all

lemma run_terms_concat: "run_terms ns (xs @ ys) = run_terms ns xs @ run_terms ns ys"
  by (induction ns arbitrary: xs ys) simp_all

lemma run_terms_pair: "run_terms ns [x, y] = run_terms ns [x] @ run_terms ns [y]"
  using run_terms_concat [of ns "[x]" "[y]"] by simp

lemma run_lits:
  "run_terms (map Lit w) [(i, r)] =
     (if take (length w) r = w then [(i + length w, drop (length w) r)] else [])"
proof (induction w arbitrary: i r)
  case Nil
  then show ?case by simp
next
  case (Cons c w)
  show ?case
  proof (cases r)
    case Nil
    then show ?thesis by (simp add: step_char_def run_terms_Nil)
  next
    case (Cons d ds)
    then show ?thesis
      using Cons.IH [of "Suc i" ds]
      by (auto simp add: step_char_def run_terms_Nil)
  qed
qed

lemma take_eq_iff: "take (length w) r = w \<longleftrightarrow> (\<exists>post. r = w @ post)"
  by (metis append_eq_conv_conj append_take_drop_id)

lemma m_before:
  "m_node boundary_before (i, r) =
     (if i = 0 then [(i, r)] else [])
     @ (case r of [] \<Rightarrow> [] | c # cs \<Rightarrow> if is_whitespace c then [(Suc i, cs)] else [])"
  by (simp add: boundary_before_def step_char_def class_matches_def split: list.splits)

lemma m_after:
  "m_node (Group [[CharClass False items], [Eol]]) (j, r) \<noteq> []
     \<longleftrightarrow> (r = [] \<or> class_matches items (hd r))"
  by (cases r) (simp_all add: step_char_def)

lemma run_token:
  "run_terms (map Lit w @ [Group [[CharClass False items], [Eol]]]) [(i, r)] \<noteq> []
     \<longleftrightarrow> token_here items w r"
proof -
  let ?after = "Group [[CharClass False items], [Eol]]"
  have "run_terms (map Lit w @ [?after]) [(i, r)]
        = run_terms [?after] (run_terms (map Lit w) [(i, r)])"
    by (simp only: fold_append comp_apply)
  then have "run_terms (map Lit w @ [?after]) [(i, r)] \<noteq> [] \<longleftrightarrow>
      (take (length w) r = w
       \<and> (drop (length w) r = [] \<or> class_matches items (hd (drop (length w) r))))"
    using m_after [of items "i + length w" "drop (length w) r"]
    by (simp add: run_lits)
  also have "\<dots> \<longleftrightarrow> token_here items w r"
    unfolding token_here_def by (auto simp add: take_eq_iff)
  finally show ?thesis .
qed

lemma matches_at_token:
  "matches_at (token_pattern items w) (i, r) \<longleftrightarrow>
     (i = 0 \<and> token_here items w r)
     \<or> (\<exists>c cs. r = c # cs \<and> is_whitespace c \<and> token_here items w cs)"
proof -
  let ?tail = "map Lit w @ [Group [[CharClass False items], [Eol]]]"
  have eq: "m_node (Group (token_pattern items w)) (i, r)
      = run_terms ?tail (m_node boundary_before (i, r))"
    by (simp add: token_pattern_def)
  have one: "run_terms ?tail [s] \<noteq> [] \<longleftrightarrow> token_here items w (snd s)" for s
    using run_token [of w items "fst s" "snd s"] by simp
  have two: "run_terms ?tail [s, s'] \<noteq> []
      \<longleftrightarrow> token_here items w (snd s) \<or> token_here items w (snd s')" for s s'
    unfolding run_terms_pair [of ?tail s s'] using one [of s] one [of s'] by simp
  have none: "run_terms ?tail [] = []"
    by (rule run_terms_Nil)
  show ?thesis
  proof (cases r)
    case Nil
    then show ?thesis
      unfolding matches_at_def eq m_before using one [of "(i, r)"] none
      by (cases "i = 0") (simp_all del: fold_append)
  next
    case (Cons c cs)
    then show ?thesis
      unfolding matches_at_def eq m_before
      using one [of "(i, r)"] one [of "(Suc i, cs)"] two [of "(i, r)" "(Suc i, cs)"] none
      by (cases "i = 0"; cases "is_whitespace c") (simp_all del: fold_append)
  qed
qed

text \<open>The scan tries every start index.\<close>

lemma search_iff:
  "search p i t \<longleftrightarrow> (\<exists>k\<le>length t. matches_at p (i + k, drop k t))"
proof (induction t arbitrary: i)
  case Nil
  then show ?case by simp
next
  case (Cons c t)
  have "(\<exists>k\<le>length (c # t). matches_at p (i + k, drop k (c # t)))
        \<longleftrightarrow> matches_at p (i, c # t) \<or> (\<exists>k\<le>length t. matches_at p (Suc i + k, drop k t))"
  proof
    assume "\<exists>k\<le>length (c # t). matches_at p (i + k, drop k (c # t))"
    then obtain k where k: "k \<le> length (c # t)" "matches_at p (i + k, drop k (c # t))"
      by blast
    show "matches_at p (i, c # t) \<or> (\<exists>k\<le>length t. matches_at p (Suc i + k, drop k t))"
    proof (cases k)
      case 0
      with k show ?thesis by simp
    next
      case (Suc k')
      with k show ?thesis by auto
    qed
  next
    assume "matches_at p (i, c # t) \<or> (\<exists>k\<le>length t. matches_at p (Suc i + k, drop k t))"
    then show "\<exists>k\<le>length (c # t). matches_at p (i + k, drop k (c # t))"
    proof
      assume "matches_at p (i, c # t)"
      then show ?thesis by (intro exI [of _ 0]) simp
    next
      assume "\<exists>k\<le>length t. matches_at p (Suc i + k, drop k t)"
      then obtain k where "k \<le> length t" "matches_at p (Suc i + k, drop k t)" by blast
      then show ?thesis by (intro exI [of _ "Suc k"]) simp
    qed
  qed
  then show ?case using Cons.IH [of "Suc i"] by simp
qed

text \<open>The expression \<open>(^|\s)w([items]|$)\<close> finds exactly the standalone occurrences.\<close>

lemma regex_test_token:
  "regex_test (token_pattern items w) t \<longleftrightarrow> standalone items w t"
proof
  assume "regex_test (token_pattern items w) t"
  then obtain k where k: "k \<le> length t" "matches_at (token_pattern items w) (k, drop k t)"
    by (auto simp add: regex_test_def search_iff)
  from k(2) consider
      (start) "k = 0" "token_here items w (drop k t)"
    | (space) c cs where "drop k t = c # cs" "is_whitespace c" "token_here items w cs"
    by (auto simp add: matches_at_token)
  then show "standalone items w t"
  proof cases
    case start
    then obtain post where "t = w @ post" "post = [] \<or> class_matches items (hd post)"
      by (auto simp add: token_here_def)
    then show ?thesis
      unfolding standalone_def by (intro exI [of _ "[]"] exI [of _ post]) simp
  next
    case space
    then obtain post where post: "cs = w @ post" "post = [] \<or> class_matches items (hd post)"
      by (auto simp add: token_here_def)
    have "t = take k t @ drop k t" by simp
    with space(1) post(1) have "t = (take k t @ [c]) @ w @ post" by simp
    with space(2) post(2) show ?thesis
      unfolding standalone_def by (intro exI [of _ "take k t @ [c]"] exI [of _ post]) simp
  qed
next
  assume "standalone items w t"
  then obtain pre post where t: "t = pre @ w @ post"
    and pre: "pre = [] \<or> is_whitespace (last pre)"
    and post: "post = [] \<or> class_matches items (hd post)"
    unfolding standalone_def by blast
  have here: "token_here items w (w @ post)"
    using post by (auto simp add: token_here_def)
  show "regex_test (token_pattern items w) t"
  proof (cases "pre = []")
    case True
    with t here have "matches_at (token_pattern items w) (0, drop 0 t)"
      by (simp add: matches_at_token)
    then show ?thesis
      unfolding regex_test_def search_iff by (intro exI [of _ 0]) simp
  next
    case False
    with pre have ws: "is_whitespace (last pre)" by simp
    from False have split: "pre = butlast pre @ [last pre]" by simp
    have "drop (length (butlast pre)) t = last pre # w @ post"
      using t split by (metis append.assoc append_Cons append_Nil append_eq_conv_conj)
    with ws here have "matches_at (token_pattern items w)
        (0 + length (butlast pre), drop (length (butlast pre)) t)"
      by (simp add: matches_at_token)
    moreover have "length (butlast pre) \<le> length t" using t by simp
    ultimately show ?thesis
      unfolding regex_test_def search_iff by blast
  qed
qed

lemma regex_test_boundary:
  "regex_test (boundary_pattern w) t \<longleftrightarrow> standalone trailing_items w t"
  by (simp add: boundary_pattern_eq regex_test_token)

text \<open>A sequence of literal code units finds exactly the substrings equal to it.\<close>

lemma matches_at_lits: "matches_at [map Lit w] (i, r) \<longleftrightarrow> (\<exists>post. r = w @ post)"
  by (simp add: matches_at_def run_lits take_eq_iff)

lemma regex_test_literal: "regex_test [map Lit w] t \<longleftrightarrow> contains_literal w t"
proof
  assume "regex_test [map Lit w] t"
  then obtain k post where "k \<le> length t" "drop k t = w @ post"
    by (auto simp add: regex_test_def search_iff matches_at_lits)
  then have "t = take k t @ w @ post" by (metis append_take_drop_id)
  then show "contains_literal w t" unfolding contains_literal_def by blast
next
  assume "contains_literal w t"
  then obtain pre post where t: "t = pre @ w @ post" unfolding contains_literal_def by blast
  then have "drop (length pre) t = w @ post" "length pre \<le> length t" by simp_all
  then show "regex_test [map Lit w] t"
    unfolding regex_test_def search_iff matches_at_lits by auto
qed

section \<open>Provider mentions\<close>

text \<open>The two closing classes, written out.\<close>

lemma trailing_items_iff:
  "class_matches trailing_items c \<longleftrightarrow>
     is_whitespace c \<or> c = ch CHR ''.'' \<or> c = ch CHR '','' \<or> c = ch CHR ''!''
     \<or> c = ch CHR ''?'' \<or> c = ch CHR '';'' \<or> c = ch CHR '':''"
  by (simp add: class_matches_def trailing_items_def)

lemma spec_trailing_items_iff:
  "class_matches spec_trailing_items c \<longleftrightarrow>
     c = ch CHR '' '' \<or> c = ch CHR ''.'' \<or> c = ch CHR '','' \<or> c = ch CHR ''!''
     \<or> c = ch CHR ''?'' \<or> c = ch CHR '';'' \<or> c = ch CHR '':''"
  by (simp add: class_matches_def spec_trailing_items_def)

lemma spec_items_subset:
  "class_matches spec_trailing_items c \<Longrightarrow> class_matches trailing_items c"
  by (auto simp add: class_matches_def spec_trailing_items_def trailing_items_def
      is_whitespace_def)

text \<open>
  A token that is standalone by the rule of the specification is standalone by the rule of
  the source; the converse fails on a token followed by a tab or a line break.
\<close>

lemma standalone_spec_imp:
  "standalone spec_trailing_items w t \<Longrightarrow> standalone trailing_items w t"
  unfolding standalone_def using spec_items_subset by blast

text \<open>
  Claim C1, as stated: \<open>detectAIProvider\<close> answers \<open>claude\<close> when the text has
  \<open>@claude\<close> standalone and \<open>augment\<close> when it has \<open>@augment\<close> standalone,
  standalone meaning preceded by the start of the text or whitespace and followed by the
  end of the text or one of space, \<open>.\<close>, \<open>,\<close>, \<open>!\<close>, \<open>?\<close>, \<open>;\<close>,
  \<open>:\<close>; it answers null for every text whose tokens all fail that rule, and the rule
  has no exceptions.

  The source differs in two places. It tests \<open>@augment\<close> first, so a text with both
  tokens standalone is answered \<open>augment\<close>, not \<open>claude\<close>. And it closes the token
  with \<open>[\s.,!?;:]\<close>, where \<open>\s\<close> has more than the space: in the comment
  \<open>@claude\<close>, line feed, \<open>fix the bug\<close> neither token is followed by the end of
  the text or by one of the seven listed characters, and the answer is \<open>claude\<close>, not
  null.
\<close>

theorem detectAIProvider_boundary_counterexample:
  "standalone spec_trailing_items (str ''@claude'') (str ''@claude and @augment please help'')
   \<and> detectAIProvider (str ''@claude and @augment please help'') = Some Augment
   \<and> \<not> standalone spec_trailing_items (str ''@claude'') (str ''@claude'' @ [0x0A] @ str ''fix the bug'')
   \<and> \<not> standalone spec_trailing_items (str ''@augment'') (str ''@claude'' @ [0x0A] @ str ''fix the bug'')
   \<and> detectAIProvider (str ''@claude'' @ [0x0A] @ str ''fix the bug'') = Some Claude"
  unfolding regex_test_token [symmetric]
  by code_simp

text \<open>
  Claim C1, amended: with the token closed by the end of the text, by any whitespace code
  unit (space, tab, line feed, carriage return and the others of \<open>\s\<close>) or by one of
  \<open>.\<close>, \<open>,\<close>, \<open>!\<close>, \<open>?\<close>, \<open>;\<close>, \<open>:\<close>, \<open>detectAIProvider\<close>
  answers \<open>augment\<close> when \<open>@augment\<close> is standalone in the text, \<open>claude\<close>
  when \<open>@claude\<close> is standalone and \<open>@augment\<close> is not, and null in every other
  case, in particular when a token occurs only inside a larger word.
\<close>

theorem detectAIProvider_standalone:
  "detectAIProvider t =
     (if standalone trailing_items (str ''@augment'') t then Some Augment
      else if standalone trailing_items (str ''@claude'') t then Some Claude
      else None)"
  by (simp add: detectAIProvider_def augmentRegex_def claudeRegex_def regex_test_boundary)

theorem detectAIProvider_standalone_witness:
  "detectAIProvider (str ''email@claude.com'') = None
   \<and> \<not> standalone trailing_items (str ''@claude'') (str ''email@claude.com'')
   \<and> detectAIProvider (str ''@claudette helped me'') = None
   \<and> \<not> standalone trailing_items (str ''@claude'') (str ''@claudette helped me'')
   \<and> detectAIProvider (str ''Hey @claude, can you help?'') = Some Claude
   \<and> standalone trailing_items (str ''@claude'') (str ''Hey @claude, can you help?'')
   \<and> detectAIProvider (str ''Hey @Claude, can you help?'') = None
   \<and> \<not> standalone trailing_items (str ''@claude'') (str ''Hey @Claude, can you help?'')"
proof -
  have d: "detectAIProvider (str ''Hey @Claude, can you help?'') = None"
    by code_simp
  have a: "detectAIProvider (str ''email@claude.com'') = None"
    by code_simp
  have b: "detectAIProvider (str ''@claudette helped me'') = None"
    by code_simp
  have c: "detectAIProvider (str ''Hey @claude, can you help?'') = Some Claude"
    by code_simp
  show ?thesis
    using a b c d
      detectAIProvider_standalone [of "str ''Hey @Claude, can you help?''"]
      detectAIProvider_standalone [of "str ''email@claude.com''"]
      detectAIProvider_standalone [of "str ''@claudette helped me''"]
      detectAIProvider_standalone [of "str ''Hey @claude, can you help?''"]
    by (simp split: if_splits)
qed

text \<open>
  Claim C2, as stated: whenever both \<open>@claude\<close> and \<open>@augment\<close> appear anywhere
  in a text, \<open>detectAIProvider\<close> answers \<open>augment\<close>, unconditionally. The source
  counts a token only where it stands as a whole word. In \<open>email@augment.com @claude\<close>
  both appear, \<open>@augment\<close> inside a larger word, and the answer is \<open>claude\<close>; in
  \<open>x@claude y@augment\<close> both appear and the answer is null.
\<close>

theorem detectAIProvider_appear_anywhere_counterexample:
  "contains_literal (str ''@claude'') (str ''email@augment.com @claude'')
   \<and> contains_literal (str ''@augment'') (str ''email@augment.com @claude'')
   \<and> detectAIProvider (str ''email@augment.com @claude'') = Some Claude
   \<and> contains_literal (str ''@claude'') (str ''x@claude y@augment'')
   \<and> contains_literal (str ''@augment'') (str ''x@claude y@augment'')
   \<and> detectAIProvider (str ''x@claude y@augment'') = None"
  unfolding regex_test_literal [symmetric]
  by code_simp

text \<open>
  Claim C2, amended: for every text in which \<open>@claude\<close> appears anywhere and
  \<open>@augment\<close> appears as a standalone token (preceded by the start of the text or
  whitespace, followed by the end of the text, whitespace or one of \<open>.\<close>, \<open>,\<close>,
  \<open>!\<close>, \<open>?\<close>, \<open>;\<close>, \<open>:\<close>), \<open>detectAIProvider\<close> answers \<open>augment\<close>,
  whichever token comes first, wherever each stands, and whether \<open>@claude\<close> is
  standalone itself or not.
\<close>

theorem detectAIProvider_augment_priority:
  assumes "contains_literal (str ''@claude'') t"
    and "standalone trailing_items (str ''@augment'') t"
  shows "detectAIProvider t = Some Augment"
  using assms(2)
  by (simp add: detectAIProvider_def augmentRegex_def regex_test_boundary)

theorem detectAIProvider_augment_priority_witness:
  "contains_literal (str ''@claude'') (str ''@claude and @augment please help'')
   \<and> standalone trailing_items (str ''@augment'') (str ''@claude and @augment please help'')
   \<and> detectAIProvider (str ''@claude and @augment please help'') = Some Augment
   \<and> contains_literal (str ''@claude'') (str ''ask @augment, then @claude'')
   \<and> standalone trailing_items (str ''@augment'') (str ''ask @augment, then @claude'')
   \<and> detectAIProvider (str ''ask @augment, then @claude'') = Some Augment
   \<and> contains_literal (str ''@claude'') (str ''email@claude.com @augment'')
   \<and> standalone trailing_items (str ''@augment'') (str ''email@claude.com @augment'')
   \<and> detectAIProvider (str ''email@claude.com @augment'') = Some Augment"
proof -
  have c1: "contains_literal (str ''@claude'') (str ''@claude and @augment please help'')"
    unfolding regex_test_literal [symmetric] by code_simp
  have a1: "standalone trailing_items (str ''@augment'') (str ''@claude and @augment please help'')"
    unfolding regex_test_boundary [symmetric] by code_simp
  have c2: "contains_literal (str ''@claude'') (str ''ask @augment, then @claude'')"
    unfolding regex_test_literal [symmetric] by code_simp
  have a2: "standalone trailing_items (str ''@augment'') (str ''ask @augment, then @claude'')"
    unfolding regex_test_boundary [symmetric] by code_simp
  have c3: "contains_literal (str ''@claude'') (str ''email@claude.com @augment'')"
    unfolding regex_test_literal [symmetric] by code_simp
  have a3: "standalone trailing_items (str ''@augment'') (str ''email@claude.com @augment'')"
    unfolding regex_test_boundary [symmetric] by code_simp
  show ?thesis
    using c1 a1 c2 a2 c3 a3
      detectAIProvider_augment_priority [OF c1 a1]
      detectAIProvider_augment_priority [OF c2 a2]
      detectAIProvider_augment_priority [OF c3 a3]
    by simp
qed

section \<open>Escaping the trigger phrase\<close>

text \<open>The class of \<open>escapeRegExp\<close> lists the syntax characters, all of them and no other.\<close>

lemma special_is_syntax: "class_matches special_items c \<longleftrightarrow> is_syntax_character c"
  unfolding special_iff is_syntax_character_def by auto

lemma literal_atoms_plain:
  "\<not> is_syntax_character c \<Longrightarrow>
   literal_atoms (c # cs) = map_option ((#) c) (literal_atoms cs)"
  by (cases cs) (auto simp add: is_syntax_character_def)

lemma literal_atoms_escaped:
  "is_syntax_character d \<Longrightarrow>
   literal_atoms (0x5C # d # cs) = map_option ((#) d) (literal_atoms cs)"
  by simp

text \<open>
  The escaped string consists of literal atoms only, and they stand for the string that
  was escaped.
\<close>

lemma literal_atoms_escapeRegExp: "literal_atoms (escapeRegExp s) = Some s"
proof (induction s)
  case Nil
  then show ?case by (simp add: escapeRegExp_def)
next
  case (Cons c s)
  have step: "escapeRegExp (c # s) =
      (if class_matches special_items c then [0x5C, c] else [c]) @ escapeRegExp s"
    by (simp add: escapeRegExp_def)
  show ?case
  proof (cases "is_syntax_character c")
    case True
    then show ?thesis
      using Cons.IH by (simp add: step special_is_syntax literal_atoms_escaped)
  next
    case False
    then show ?thesis
      using Cons.IH by (simp add: step special_is_syntax literal_atoms_plain)
  qed
qed

text \<open>
  Claim C6: for every string \<open>s\<close>, the expression that the runtime constructs from
  \<open>escapeRegExp(s)\<close> matches a text exactly when the text has \<open>s\<close> as a substring:
  every code unit of \<open>s\<close>, the metacharacters too, matches itself only. The runtime's
  engine is a parameter: the statement holds for every engine that treats literal atoms as
  the pattern grammar says.
\<close>

theorem escapeRegExp_literal:
  assumes "literal_runtime test"
  shows "test (escapeRegExp s) t = Inr (contains_literal s t)"
  using assms literal_atoms_escapeRegExp [of s]
  unfolding literal_runtime_def by blast

text \<open>
  The reader and the matcher of this theory make up such an engine: on a source of literal
  atoms the reader yields the sequence of the code units they stand for.
\<close>

lemma parse_run_literal_atoms:
  "literal_atoms source = Some w \<Longrightarrow>
   parse_run (PState MMain (Frame alts cur) stack) (source @ rest) =
   parse_run (PState MMain (Frame alts (cur @ map Lit w)) stack) rest"
proof (induction source arbitrary: w cur rule: literal_atoms.induct)
  case 1
  then show ?case by simp
next
  case (2 c)
  then have plain: "\<not> class_matches special_items c" and w: "w = [c]"
    by (auto simp add: special_is_syntax split: if_splits)
  then show ?case by (simp add: main_step_plain)
next
  case (3 c d cs)
  show ?case
  proof (cases "c = 0x5C")
    case True
    with "3.prems" obtain w' where syn: "is_syntax_character d"
      and w': "literal_atoms cs = Some w'" and w: "w = d # w'"
      by (auto split: if_splits)
    from syn have esc: "escape_node d = Inr (Lit d)"
      by (simp add: escape_node_special special_is_syntax)
    show ?thesis
      using "3.IH"(1) [OF True syn w', of "cur @ [Lit d]"] True esc w
      by (simp add: main_step_def)
  next
    case False
    with "3.prems" obtain w' where syn: "\<not> is_syntax_character c"
      and w': "literal_atoms (d # cs) = Some w'" and w: "w = c # w'"
      by (auto split: if_splits)
    from syn have plain: "\<not> class_matches special_items c"
      by (simp add: special_is_syntax)
    show ?thesis
      using "3.IH"(2) [OF False syn w', of "cur @ [Lit c]"] plain w
      by (simp add: main_step_plain)
  qed
qed

lemma RegExp_new_literal_atoms:
  "literal_atoms source = Some w \<Longrightarrow> RegExp_new source = Inr [map Lit w]"
  using parse_run_literal_atoms [of source w "[]" "[]" "[]" "[]"]
  by (simp add: RegExp_new_def)

lemma literal_runtime_RegExp_test: "literal_runtime RegExp_test"
  unfolding literal_runtime_def
  by (simp add: RegExp_test_def RegExp_new_literal_atoms regex_test_literal)

text \<open>
  The text \<open>a.b*\<close> itself is no source of literal atoms; escaped it is one, and the
  engine of this theory finds it in \<open>xa.b*y\<close> and not in \<open>xaxbbby\<close>.
\<close>

theorem escapeRegExp_literal_witness:
  "literal_runtime RegExp_test
   \<and> literal_atoms (str ''a.b*'') = None
   \<and> literal_atoms (escapeRegExp (str ''a.b*'')) = Some (str ''a.b*'')
   \<and> RegExp_test (escapeRegExp (str ''a.b*'')) (str ''xa.b*y'') = Inr True
   \<and> contains_literal (str ''a.b*'') (str ''xa.b*y'')
   \<and> RegExp_test (escapeRegExp (str ''a.b*'')) (str ''xaxbbby'') = Inr False
   \<and> \<not> contains_literal (str ''a.b*'') (str ''xaxbbby'')"
proof -
  have yes: "contains_literal (str ''a.b*'') (str ''xa.b*y'')"
    unfolding regex_test_literal [symmetric] by code_simp
  have no: "\<not> contains_literal (str ''a.b*'') (str ''xaxbbby'')"
    unfolding regex_test_literal [symmetric] by code_simp
  have raw: "literal_atoms (str ''a.b*'') = None"
    by code_simp
  have escaped: "literal_atoms (escapeRegExp (str ''a.b*'')) = Some (str ''a.b*'')"
    by code_simp
  show ?thesis
    using yes no raw escaped literal_runtime_RegExp_test
      escapeRegExp_literal [OF literal_runtime_RegExp_test, of "str ''a.b*''" "str ''xa.b*y''"]
      escapeRegExp_literal [OF literal_runtime_RegExp_test, of "str ''a.b*''" "str ''xaxbbby''"]
    by simp
qed

section \<open>checkContainsTrigger\<close>

lemma body_title_block_cases:
  "body_title_block phrase body title = Inr None
   \<or> (\<exists>p. body_title_block phrase body title = Inr (Some (triggered p)))"
  by (auto simp add: body_title_block_def trigger_source_parse split: option.splits)

lemma body_block_cases:
  "body_block phrase body = Inr None \<or> (\<exists>p. body_block phrase body = Inr (Some (triggered p)))"
  by (auto simp add: body_block_def trigger_source_parse split: option.splits)

lemma issues_block_cases:
  "issues_block c = Inr None \<or> (\<exists>p. issues_block c = Inr (Some (triggered p)))"
  using body_title_block_cases by (auto simp add: issues_block_def split: payload.splits)

lemma pull_request_block_cases:
  "pull_request_block c = Inr None \<or> (\<exists>p. pull_request_block c = Inr (Some (triggered p)))"
  using body_title_block_cases by (auto simp add: pull_request_block_def split: payload.splits)

lemma review_block_cases:
  "review_block c = Inr None \<or> (\<exists>p. review_block c = Inr (Some (triggered p)))"
  using body_block_cases by (auto simp add: review_block_def split: payload.splits)

lemma comment_block_cases:
  "comment_block c = Inr None \<or> (\<exists>p. comment_block c = Inr (Some (triggered p)))"
  using body_block_cases by (auto simp add: comment_block_def split: payload.splits)

lemma assignee_block_cases:
  "assignee_block c = None \<or> assignee_block c = Some (triggered Claude)"
  by (auto simp add: assignee_block_def Let_def split: payload.splits)

text \<open>The function always returns, with one of two shapes of result.\<close>

lemma checkContainsTrigger_cases:
  "checkContainsTrigger c = Inr not_triggered
   \<or> (\<exists>p. checkContainsTrigger c = Inr (triggered p))"
  using assignee_block_cases [of c] issues_block_cases [of c] pull_request_block_cases [of c]
    review_block_cases [of c] comment_block_cases [of c]
  by (auto simp add: checkContainsTrigger_def)

lemma detectAIProvider_empty: "detectAIProvider [] = None"
  by (simp add: detectAIProvider_def augmentRegex_def claudeRegex_def regex_test_boundary
      standalone_def str_def)

lemma empty_phrase_matches_empty: "regex_test (boundary_pattern []) []"
  by (simp add: regex_test_boundary standalone_def)

text \<open>
  Claim C5: when the direct prompt is a non-empty string, \<open>checkContainsTrigger\<close>
  returns \<open>{containsTrigger: true, aiProvider: "claude"}\<close>, whatever the event, the
  assignee, the trigger phrase and the text fields are.
\<close>

theorem checkContainsTrigger_direct_prompt:
  "directPrompt (inputs c) \<noteq> [] \<Longrightarrow>
   checkContainsTrigger c = Inr \<lparr>containsTrigger = True, aiProvider = Some Claude\<rparr>"
  by (simp add: checkContainsTrigger_def triggered_def)

theorem checkContainsTrigger_direct_prompt_witness:
  "directPrompt (inputs
     \<lparr>eventAction = Some (str ''opened''),
      repository = \<lparr>owner = str ''test-owner'', repo = str ''test-repo''\<rparr>,
      actor = str ''test-user'',
      payload = IssuesEvent (Some (str ''The login page is broken'')) (Some (str ''Bug'')) None,
      inputs = \<lparr>triggerPhrase = str ''/claude'', assigneeTrigger = [],
                directPrompt = str ''help me with this'', allowedBotNames = []\<rparr>\<rparr>) \<noteq> []
   \<and> checkContainsTrigger
     \<lparr>eventAction = Some (str ''opened''),
      repository = \<lparr>owner = str ''test-owner'', repo = str ''test-repo''\<rparr>,
      actor = str ''test-user'',
      payload = IssuesEvent (Some (str ''The login page is broken'')) (Some (str ''Bug'')) None,
      inputs = \<lparr>triggerPhrase = str ''/claude'', assigneeTrigger = [],
                directPrompt = str ''help me with this'', allowedBotNames = []\<rparr>\<rparr>
     = Inr \<lparr>containsTrigger = True, aiProvider = Some Claude\<rparr>"
proof -
  let ?c = "\<lparr>eventAction = Some (str ''opened''),
      repository = \<lparr>owner = str ''test-owner'', repo = str ''test-repo''\<rparr>,
      actor = str ''test-user'',
      payload = IssuesEvent (Some (str ''The login page is broken'')) (Some (str ''Bug'')) None,
      inputs = \<lparr>triggerPhrase = str ''/claude'', assigneeTrigger = [],
                directPrompt = str ''help me with this'', allowedBotNames = []\<rparr>\<rparr>"
  have h: "directPrompt (inputs ?c) \<noteq> []"
    by (simp add: str_def)
  from h checkContainsTrigger_direct_prompt [OF h] show ?thesis by simp
qed

text \<open>
  Claim C9: for every event context \<open>checkContainsTrigger\<close> returns a result, and in
  it \<open>aiProvider\<close> is present exactly when \<open>containsTrigger\<close> is true: a triggered
  result names \<open>claude\<close> or \<open>augment\<close>, the result that is not triggered names no
  provider.
\<close>

theorem checkContainsTrigger_provider_iff_trigger:
  "\<exists>r. checkContainsTrigger c = Inr r
     \<and> (aiProvider r \<noteq> None \<longleftrightarrow> containsTrigger r)
     \<and> (containsTrigger r \<longrightarrow> aiProvider r = Some Claude \<or> aiProvider r = Some Augment)"
proof -
  from checkContainsTrigger_cases [of c] show ?thesis
  proof
    assume "checkContainsTrigger c = Inr not_triggered"
    then show ?thesis by (simp add: not_triggered_def)
  next
    assume "\<exists>p. checkContainsTrigger c = Inr (triggered p)"
    then obtain p where "checkContainsTrigger c = Inr (triggered p)" by blast
    then show ?thesis by (cases p) (simp_all add: triggered_def)
  qed
qed

theorem checkContainsTrigger_provider_iff_trigger_witness:
  "checkContainsTrigger
     \<lparr>eventAction = Some (str ''created''),
      repository = \<lparr>owner = str ''test-owner'', repo = str ''test-repo''\<rparr>,
      actor = str ''test-user'',
      payload = IssueCommentEvent (str ''@claude and @augment please help''),
      inputs = \<lparr>triggerPhrase = str ''@claude'', assigneeTrigger = [],
                directPrompt = [], allowedBotNames = []\<rparr>\<rparr>
     = Inr \<lparr>containsTrigger = True, aiProvider = Some Augment\<rparr>
   \<and> (aiProvider \<lparr>containsTrigger = True, aiProvider = Some Augment\<rparr> \<noteq> None
        \<longleftrightarrow> containsTrigger \<lparr>containsTrigger = True, aiProvider = Some Augment\<rparr>)"
proof -
  let ?c = "\<lparr>eventAction = Some (str ''created''),
      repository = \<lparr>owner = str ''test-owner'', repo = str ''test-repo''\<rparr>,
      actor = str ''test-user'',
      payload = IssueCommentEvent (str ''@claude and @augment please help''),
      inputs = \<lparr>triggerPhrase = str ''@claude'', assigneeTrigger = [],
                directPrompt = [], allowedBotNames = []\<rparr>\<rparr>"
  have run: "checkContainsTrigger ?c = Inr \<lparr>containsTrigger = True, aiProvider = Some Augment\<rparr>"
    by code_simp
  from checkContainsTrigger_provider_iff_trigger [of ?c] obtain r
    where "checkContainsTrigger ?c = Inr r" and "aiProvider r \<noteq> None \<longleftrightarrow> containsTrigger r"
    by blast
  with run show ?thesis by simp
qed

text \<open>
  Claim C10: with the empty string as trigger phrase, the expression built from the
  template \<open>(^|\s)<phrase>([\s.,!?;:]|$)\<close> matches the empty text. So for an issue
  that is opened with an empty body, no direct prompt and no provider mention,
  \<open>checkContainsTrigger\<close> returns \<open>{containsTrigger: true, aiProvider: "claude"}\<close>:
  an empty trigger phrase does not switch the trigger off.
\<close>

theorem checkContainsTrigger_empty_phrase:
  assumes "payload c = IssuesEvent body title assignee"
    and "eventAction c = Some (str ''opened'')"
    and "directPrompt (inputs c) = []"
    and "triggerPhrase (inputs c) = []"
    and "or_empty body = []"
    and "detectAIProvider (or_empty title) = None"
  shows "(\<exists>p. RegExp_new (trigger_source (triggerPhrase (inputs c))) = Inr p \<and> regex_test p [])
     \<and> checkContainsTrigger c = Inr \<lparr>containsTrigger = True, aiProvider = Some Claude\<rparr>"
proof -
  have "assignee_block c = None"
    using assms(1,2) by (simp add: assignee_block_def str_def)
  moreover have "issues_block c = Inr (Some (triggered Claude))"
    using assms
    by (simp add: issues_block_def body_title_block_def trigger_source_parse
        empty_phrase_matches_empty detectAIProvider_empty)
  ultimately show ?thesis
    using assms(3,4)
    by (simp add: checkContainsTrigger_def trigger_source_parse empty_phrase_matches_empty
        triggered_def)
qed

theorem checkContainsTrigger_empty_phrase_witness:
  "(\<exists>p. RegExp_new (trigger_source []) = Inr p \<and> regex_test p [])
   \<and> checkContainsTrigger
     \<lparr>eventAction = Some (str ''opened''),
      repository = \<lparr>owner = str ''test-owner'', repo = str ''test-repo''\<rparr>,
      actor = str ''test-user'',
      payload = IssuesEvent None (Some (str ''Login page is broken'')) None,
      inputs = \<lparr>triggerPhrase = [], assigneeTrigger = [],
                directPrompt = [], allowedBotNames = []\<rparr>\<rparr>
     = Inr \<lparr>containsTrigger = True, aiProvider = Some Claude\<rparr>"
proof -
  let ?c = "\<lparr>eventAction = Some (str ''opened''),
      repository = \<lparr>owner = str ''test-owner'', repo = str ''test-repo''\<rparr>,
      actor = str ''test-user'',
      payload = IssuesEvent None (Some (str ''Login page is broken'')) None,
      inputs = \<lparr>triggerPhrase = [], assigneeTrigger = [],
                directPrompt = [], allowedBotNames = []\<rparr>\<rparr>"
  have h1: "payload ?c = IssuesEvent None (Some (str ''Login page is broken'')) None" by simp
  have h2: "eventAction ?c = Some (str ''opened'')" by simp
  have h3: "directPrompt (inputs ?c) = []" by simp
  have h4: "triggerPhrase (inputs ?c) = []" by simp
  have h5: "or_empty None = []" by simp
  have h6: "detectAIProvider (or_empty (Some (str ''Login page is broken''))) = None"
    by code_simp
  from checkContainsTrigger_empty_phrase [OF h1 h2 h3 h4 h5 h6] show ?thesis by simp
qed

section \<open>Messages that name their parts\<close>

lemma contains_literal_mid: "contains_literal w (a @ w @ b)"
  unfolding contains_literal_def by blast

lemma contains_literal_end: "contains_literal w (a @ w)"
  unfolding contains_literal_def by (metis append_Nil2)

lemma unauthorized_message_names_actor:
  "contains_literal login (unauthorized_message login actorType botNames)"
  unfolding unauthorized_message_def by (rule contains_literal_mid)

lemma unauthorized_message_names_type:
  "contains_literal actorType (unauthorized_message login actorType botNames)"
proof -
  have "unauthorized_message login actorType botNames =
      (str ''Workflow initiated by unauthorized actor: '' @ login @ str '' (type: '') @ actorType
      @ (str ''). '' @ str ''Only human users and whitelisted bots are allowed.''
       @ (if length botNames > 0
          then str '' Allowed bots: '' @ join (str '', '') botNames
          else []))"
    by (simp add: unauthorized_message_def)
  then show ?thesis by (simp only: contains_literal_mid)
qed

lemma unauthorized_message_names_list:
  assumes "botNames \<noteq> []"
  shows "contains_literal (join (str '', '') botNames)
           (unauthorized_message login actorType botNames)"
proof -
  have "unauthorized_message login actorType botNames =
      (str ''Workflow initiated by unauthorized actor: '' @ login @ str '' (type: '' @ actorType
      @ str ''). '' @ str ''Only human users and whitelisted bots are allowed.''
       @ str '' Allowed bots: '') @ join (str '', '') botNames"
    using assms by (simp add: unauthorized_message_def)
  then show ?thesis by (simp only: contains_literal_end)
qed

lemma unsupported_names_tool: "contains_literal cliTool (unsupported_message cliTool)"
  unfolding unsupported_message_def by (rule contains_literal_mid)

lemma supported_cases:
  "cliTool \<in> set supported_tools \<longleftrightarrow>
     cliTool = str ''claude-cli'' \<or> cliTool = str ''gemini-cli''
     \<or> cliTool = str ''codex-cli'' \<or> cliTool = str ''augment-cli''"
  by (auto simp add: supported_tools_def)

lemma unsupported_names_set:
  assumes "b \<in> set supported_tools"
  shows "contains_literal b (unsupported_message cliTool)"
proof -
  let ?head = "str ''Unsupported CLI tool: '' @ cliTool @ str ''. Supported tools: ''"
  have msg: "unsupported_message cliTool
      = ?head @ str ''claude-cli'' @ str '', '' @ str ''gemini-cli'' @ str '', ''
          @ str ''codex-cli'' @ str '', '' @ str ''augment-cli''"
    by (simp add: unsupported_message_def str_def)
  from assms consider "b = str ''claude-cli''" | "b = str ''gemini-cli''"
    | "b = str ''codex-cli''" | "b = str ''augment-cli''"
    unfolding supported_cases by blast
  then show ?thesis
  proof cases
    case 1
    show ?thesis unfolding msg 1 by (rule contains_literal_mid)
  next
    case 2
    have "unsupported_message cliTool
        = (?head @ str ''claude-cli'' @ str '', '') @ str ''gemini-cli''
          @ (str '', '' @ str ''codex-cli'' @ str '', '' @ str ''augment-cli'')"
      by (simp add: msg)
    then show ?thesis unfolding 2 by (simp only: contains_literal_mid)
  next
    case 3
    have "unsupported_message cliTool
        = (?head @ str ''claude-cli'' @ str '', '' @ str ''gemini-cli'' @ str '', '')
          @ str ''codex-cli'' @ (str '', '' @ str ''augment-cli'')"
      by (simp add: msg)
    then show ?thesis unfolding 3 by (simp only: contains_literal_mid)
  next
    case 4
    have "unsupported_message cliTool
        = (?head @ str ''claude-cli'' @ str '', '' @ str ''gemini-cli'' @ str '', ''
            @ str ''codex-cli'' @ str '', '') @ str ''augment-cli''"
      by (simp add: msg)
    then show ?thesis unfolding 4 by (simp only: contains_literal_end)
  qed
qed

section \<open>Actor authorization\<close>

text \<open>
  Claim C3: whatever the actor and the list of allowed bots, when the user lookup answers
  with the account type, \<open>checkAllowedActor\<close> succeeds if the type is \<open>User\<close>;
  succeeds if the type is \<open>Bot\<close> and the login of the actor is an element of
  \<open>allowedBotNames\<close>, compared as strings code unit by code unit; and in every other
  case, the type \<open>Organization\<close> with a listed login among them, throws an error whose
  message names the actor, the type and, when the list is not empty, the list.
\<close>

theorem checkAllowedActor_outcome:
  assumes "users_getByUsername octokit (actor c) = Inr actorType"
  shows "(actorType = str ''User'' \<longrightarrow> snd (checkAllowedActor octokit c) = Inr ())
    \<and> (actorType = str ''Bot'' \<and> actor c \<in> set (allowedBotNames (inputs c))
         \<longrightarrow> snd (checkAllowedActor octokit c) = Inr ())
    \<and> (actorType \<noteq> str ''User''
         \<and> \<not> (actorType = str ''Bot'' \<and> actor c \<in> set (allowedBotNames (inputs c)))
         \<longrightarrow> snd (checkAllowedActor octokit c)
               = Inl (Error (unauthorized_message (actor c) actorType (allowedBotNames (inputs c))))
             \<and> contains_literal (actor c)
                 (unauthorized_message (actor c) actorType (allowedBotNames (inputs c)))
             \<and> contains_literal actorType
                 (unauthorized_message (actor c) actorType (allowedBotNames (inputs c)))
             \<and> (allowedBotNames (inputs c) \<noteq> [] \<longrightarrow>
                  contains_literal (join (str '', '') (allowedBotNames (inputs c)))
                    (unauthorized_message (actor c) actorType (allowedBotNames (inputs c)))))"
proof -
  have nonempty: "actor c \<in> set (allowedBotNames (inputs c))
      \<Longrightarrow> length (allowedBotNames (inputs c)) > 0"
    by (cases "allowedBotNames (inputs c)") simp_all
  show ?thesis
    using assms nonempty
    by (auto simp add: checkAllowedActor_def unauthorized_message_names_actor
        unauthorized_message_names_type unauthorized_message_names_list)
qed

theorem checkAllowedActor_outcome_witness:
  "snd (checkAllowedActor (createMockOctokit (str ''Bot'') (Inr (str ''read'')))
          (createContext (str ''malicious-bot'') [str ''dependabot[bot]'']))
     = Inl (Error (str ''Workflow initiated by unauthorized actor: malicious-bot (type: Bot). Only human users and whitelisted bots are allowed. Allowed bots: dependabot[bot]''))
   \<and> snd (checkAllowedActor (createMockOctokit (str ''Organization'') (Inr (str ''read'')))
          (createContext (str ''some-org'') [str ''some-org'']))
     = Inl (Error (str ''Workflow initiated by unauthorized actor: some-org (type: Organization). Only human users and whitelisted bots are allowed. Allowed bots: some-org''))
   \<and> snd (checkAllowedActor (createMockOctokit (str ''Bot'') (Inr (str ''read'')))
          (createContext (str ''dependabot[bot]'') [str ''dependabot[bot]''])) = Inr ()
   \<and> snd (checkAllowedActor (createMockOctokit (str ''Bot'') (Inr (str ''read'')))
          (createContext (str ''Dependabot[bot]'') [str ''dependabot[bot]'']))
     = Inl (Error (str ''Workflow initiated by unauthorized actor: Dependabot[bot] (type: Bot). Only human users and whitelisted bots are allowed. Allowed bots: dependabot[bot]''))
   \<and> snd (checkAllowedActor (createMockOctokit (str ''User'') (Inr (str ''read'')))
          (createContext (str ''test-user'') [])) = Inr ()"
proof -
  have lookup: "users_getByUsername (createMockOctokit t p) (actor (createContext a bs)) = Inr t"
    for t p a bs
    by (simp add: createMockOctokit_def)
  have m1: "unauthorized_message (str ''malicious-bot'') (str ''Bot'') [str ''dependabot[bot]'']
      = str ''Workflow initiated by unauthorized actor: malicious-bot (type: Bot). Only human users and whitelisted bots are allowed. Allowed bots: dependabot[bot]''"
    by code_simp
  have m2: "unauthorized_message (str ''some-org'') (str ''Organization'') [str ''some-org'']
      = str ''Workflow initiated by unauthorized actor: some-org (type: Organization). Only human users and whitelisted bots are allowed. Allowed bots: some-org''"
    by code_simp
  have m3: "unauthorized_message (str ''Dependabot[bot]'') (str ''Bot'') [str ''dependabot[bot]'']
      = str ''Workflow initiated by unauthorized actor: Dependabot[bot] (type: Bot). Only human users and whitelisted bots are allowed. Allowed bots: dependabot[bot]''"
    by code_simp
  have d1: "str ''Bot'' \<noteq> str ''User''" "str ''Organization'' \<noteq> str ''User''"
    "str ''Organization'' \<noteq> str ''Bot''"
    "str ''malicious-bot'' \<noteq> str ''dependabot[bot]''"
    "str ''Dependabot[bot]'' \<noteq> str ''dependabot[bot]''"
    by (simp_all add: str_def)
  show ?thesis
    using
      checkAllowedActor_outcome [OF lookup [of "str ''Bot''" "Inr (str ''read'')"
          "str ''malicious-bot''" "[str ''dependabot[bot]'']"]]
      checkAllowedActor_outcome [OF lookup [of "str ''Organization''" "Inr (str ''read'')"
          "str ''some-org''" "[str ''some-org'']"]]
      checkAllowedActor_outcome [OF lookup [of "str ''Bot''" "Inr (str ''read'')"
          "str ''dependabot[bot]''" "[str ''dependabot[bot]'']"]]
      checkAllowedActor_outcome [OF lookup [of "str ''Bot''" "Inr (str ''read'')"
          "str ''Dependabot[bot]''" "[str ''dependabot[bot]'']"]]
      checkAllowedActor_outcome [OF lookup [of "str ''User''" "Inr (str ''read'')"
          "str ''test-user''" "[]"]]
    by (simp add: createContext_def m1 m2 m3 d1)
qed

text \<open>
  Claim C4: when the actor is an element of \<open>allowedBotNames\<close>,
  \<open>checkWritePermissions\<close> returns true and calls no endpoint. Otherwise it calls the
  collaborator permission endpoint once; it returns true exactly when the endpoint reports
  \<open>admin\<close> or \<open>write\<close> and false on every other permission string; and when the call
  fails it throws an error, it does not return false.
\<close>

theorem checkWritePermissions_outcome:
  "(actor c \<in> set (allowedBotNames (inputs c))
      \<longrightarrow> checkWritePermissions octokit c = ([], Inr True))
   \<and> (actor c \<notin> set (allowedBotNames (inputs c)) \<longrightarrow>
        fst (checkWritePermissions octokit c)
          = [GetCollaboratorPermissionLevel (owner (repository c)) (repo (repository c)) (actor c)]
        \<and> (\<forall>permission.
              repos_getCollaboratorPermissionLevel octokit
                (owner (repository c)) (repo (repository c)) (actor c) = Inr permission
              \<longrightarrow> snd (checkWritePermissions octokit c)
                    = Inr (permission = str ''admin'' \<or> permission = str ''write''))
        \<and> (\<forall>error.
              repos_getCollaboratorPermissionLevel octokit
                (owner (repository c)) (repo (repository c)) (actor c) = Inl error
              \<longrightarrow> snd (checkWritePermissions octokit c)
                    = Inl (Error (str ''Failed to check permissions for '' @ actor c @ str '': ''
                                  @ error_to_string error))))"
  by (auto simp add: checkWritePermissions_def split: sum.splits)

theorem checkWritePermissions_outcome_witness:
  "checkWritePermissions (createMockOctokit (str ''Bot'') (Inl (Error (str ''Not Found''))))
      (createContext (str ''dependabot[bot]'') [str ''dependabot[bot]'']) = ([], Inr True)
   \<and> snd (checkWritePermissions (createMockOctokit (str ''User'') (Inr (str ''write'')))
      (createContext (str ''test-user'') [str ''dependabot[bot]''])) = Inr True
   \<and> snd (checkWritePermissions (createMockOctokit (str ''User'') (Inr (str ''read'')))
      (createContext (str ''test-user'') [str ''dependabot[bot]''])) = Inr False
   \<and> checkWritePermissions (createMockOctokit (str ''User'') (Inl (Error (str ''Not Found''))))
      (createContext (str ''test-user'') [str ''dependabot[bot]''])
     = ([GetCollaboratorPermissionLevel (str ''test-owner'') (str ''test-repo'') (str ''test-user'')],
        Inl (Error (str ''Failed to check permissions for test-user: Error: Not Found'')))"
proof -
  have d: "str ''test-user'' \<noteq> str ''dependabot[bot]''"
    "str ''write'' \<noteq> str ''admin''" "str ''read'' \<noteq> str ''admin''"
    "str ''read'' \<noteq> str ''write''"
    by (simp_all add: str_def)
  have m: "str ''Failed to check permissions for '' @ str ''test-user'' @ str '': ''
      @ error_to_string (Error (str ''Not Found''))
      = str ''Failed to check permissions for test-user: Error: Not Found''"
    by code_simp
  show ?thesis
    using
      checkWritePermissions_outcome [of "createContext (str ''dependabot[bot]'') [str ''dependabot[bot]'']"
        "createMockOctokit (str ''Bot'') (Inl (Error (str ''Not Found'')))"]
      checkWritePermissions_outcome [of "createContext (str ''test-user'') [str ''dependabot[bot]'']"
        "createMockOctokit (str ''User'') (Inr (str ''write''))"]
      checkWritePermissions_outcome [of "createContext (str ''test-user'') [str ''dependabot[bot]'']"
        "createMockOctokit (str ''User'') (Inr (str ''read''))"]
      checkWritePermissions_outcome [of "createContext (str ''test-user'') [str ''dependabot[bot]'']"
        "createMockOctokit (str ''User'') (Inl (Error (str ''Not Found'')))"]
    by (simp add: createContext_def createMockOctokit_def d m prod_eq_iff)
qed

section \<open>The tool dispatcher\<close>

lemma tool_config_returns:
  assumes "env_or env (str ''AI_ENV'') [] = []
      \<or> (\<exists>v. JSON_parse (env_or env (str ''AI_ENV'') []) = Inr v)"
  shows "\<exists>config. tool_config env package arguments keyName modelName = Inr config"
  using assms by (auto simp add: tool_config_def ai_env_entries_def)

lemma tool_config_throws:
  assumes "env_or env (str ''AI_ENV'') [] \<noteq> []"
    and "JSON_parse (env_or env (str ''AI_ENV'') []) = Inl e"
  shows "tool_config env package arguments keyName modelName = Inl e"
  using assms by (simp add: tool_config_def ai_env_entries_def)

text \<open>Each supported identifier selects one case of the \<open>switch\<close>.\<close>

lemma getCliToolConfig_supported:
  assumes "cliTool \<in> set supported_tools"
  shows "\<exists>package arguments keyName modelName.
           getCliToolConfig env cliTool = tool_config env package arguments keyName modelName"
proof -
  from assms consider "cliTool = str ''claude-cli''" | "cliTool = str ''gemini-cli''"
    | "cliTool = str ''codex-cli''" | "cliTool = str ''augment-cli''"
    unfolding supported_cases by blast
  then show ?thesis
  proof cases
    case 1
    then have "getCliToolConfig env cliTool =
        tool_config env (str ''@anthropic-ai/claude-code'') (claude_args env)
          (str ''ANTHROPIC_API_KEY'') (str ''ANTHROPIC_MODEL'')"
      by (simp add: getCliToolConfig_def)
    then show ?thesis by blast
  next
    case 2
    have "getCliToolConfig env (str ''gemini-cli'') =
        tool_config env (str ''@google-ai/generativelanguage'') (gemini_args env)
          (str ''GOOGLE_API_KEY'') (str ''GOOGLE_AI_MODEL'')"
      unfolding getCliToolConfig_def by (simp add: str_def)
    with 2 show ?thesis by blast
  next
    case 3
    have "getCliToolConfig env (str ''codex-cli'') =
        tool_config env (str ''@openai/codex'') (codex_args env)
          (str ''OPENAI_API_KEY'') (str ''OPENAI_MODEL'')"
      unfolding getCliToolConfig_def by (simp add: str_def)
    with 3 show ?thesis by blast
  next
    case 4
    have "getCliToolConfig env (str ''augment-cli'') =
        tool_config env (str ''openai'') (augment_args env)
          (str ''OPENAI_API_KEY'') (str ''OPENAI_MODEL'')"
      unfolding getCliToolConfig_def by (simp add: str_def)
    with 4 show ?thesis by blast
  qed
qed

text \<open>
  Claim C7, as stated: \<open>getCliToolConfig\<close> returns a configuration without error for
  every identifier of the supported set. Every case of the \<open>switch\<close> spreads
  \<open>JSON.parse(aiEnv)\<close> into \<open>envSetup\<close> when the environment variable \<open>AI_ENV\<close>
  is set and not empty. With \<open>AI_ENV\<close> set to the single character \<open>{\<close>, which is not
  a JSON text, the call for \<open>claude-cli\<close> throws a \<open>SyntaxError\<close>.
\<close>

theorem getCliToolConfig_bad_AI_ENV_counterexample:
  "str ''claude-cli'' \<in> set supported_tools
   \<and> isl (getCliToolConfig [str ''AI_ENV'' \<mapsto> str ''{''] (str ''claude-cli''))
   \<and> error_name (projl (getCliToolConfig [str ''AI_ENV'' \<mapsto> str ''{''] (str ''claude-cli'')))
       = str ''SyntaxError''"
  by code_simp

text \<open>
  Claim C7, amended: for every identifier outside the set \<open>claude-cli\<close>,
  \<open>gemini-cli\<close>, \<open>codex-cli\<close>, \<open>augment-cli\<close>, \<open>getCliToolConfig\<close> throws an
  error whose message names the identifier and lists the four supported ones. For every
  identifier in the set it returns a configuration when \<open>AI_ENV\<close> is unset, empty or a
  JSON text, and throws the error of \<open>JSON.parse\<close> when \<open>AI_ENV\<close> is anything else.
\<close>

theorem getCliToolConfig_closed_set:
  "(cliTool \<notin> set supported_tools \<longrightarrow>
      getCliToolConfig env cliTool = Inl (Error (unsupported_message cliTool))
      \<and> contains_literal cliTool (unsupported_message cliTool)
      \<and> (\<forall>b \<in> set supported_tools. contains_literal b (unsupported_message cliTool)))
   \<and> (cliTool \<in> set supported_tools \<longrightarrow>
        (env_or env (str ''AI_ENV'') [] = []
           \<or> (\<exists>v. JSON_parse (env_or env (str ''AI_ENV'') []) = Inr v)
           \<longrightarrow> (\<exists>config. getCliToolConfig env cliTool = Inr config))
        \<and> (\<forall>e. env_or env (str ''AI_ENV'') [] \<noteq> []
                \<and> JSON_parse (env_or env (str ''AI_ENV'') []) = Inl e
           \<longrightarrow> getCliToolConfig env cliTool = Inl e))"
proof (intro conjI impI allI)
  assume "cliTool \<notin> set supported_tools"
  then show "getCliToolConfig env cliTool = Inl (Error (unsupported_message cliTool))"
    unfolding supported_cases by (simp add: getCliToolConfig_def)
next
  show "contains_literal cliTool (unsupported_message cliTool)"
    by (rule unsupported_names_tool)
next
  show "\<forall>b \<in> set supported_tools. contains_literal b (unsupported_message cliTool)"
    using unsupported_names_set by blast
next
  assume "cliTool \<in> set supported_tools"
    and "env_or env (str ''AI_ENV'') [] = []
      \<or> (\<exists>v. JSON_parse (env_or env (str ''AI_ENV'') []) = Inr v)"
  then show "\<exists>config. getCliToolConfig env cliTool = Inr config"
    using getCliToolConfig_supported [of cliTool env] tool_config_returns [of env] by metis
next
  fix e
  assume "cliTool \<in> set supported_tools"
    and "env_or env (str ''AI_ENV'') [] \<noteq> []
      \<and> JSON_parse (env_or env (str ''AI_ENV'') []) = Inl e"
  then show "getCliToolConfig env cliTool = Inl e"
    using getCliToolConfig_supported [of cliTool env] tool_config_throws [of env e] by metis
qed

theorem getCliToolConfig_closed_set_witness:
  \<open>getCliToolConfig [str ''AI_ENV'' \<mapsto> str ''{"NODE_ENV": "production"}''] (str ''foo-cli'')
     = Inl (Error (str ''Unsupported CLI tool: foo-cli. Supported tools: claude-cli, gemini-cli, codex-cli, augment-cli''))
   \<and> (\<exists>config. getCliToolConfig [str ''AI_ENV'' \<mapsto> str ''{"NODE_ENV": "production"}'']
                  (str ''codex-cli'') = Inr config)
   \<and> (\<exists>config. getCliToolConfig Map.empty (str ''augment-cli'') = Inr config)\<close>
proof -
  let ?env = \<open>[str ''AI_ENV'' \<mapsto> str ''{"NODE_ENV": "production"}'']\<close>
  have out: "str ''foo-cli'' \<notin> set supported_tools"
    by code_simp
  have msg: "unsupported_message (str ''foo-cli'')
      = str ''Unsupported CLI tool: foo-cli. Supported tools: claude-cli, gemini-cli, codex-cli, augment-cli''"
    by code_simp
  have inside: "str ''codex-cli'' \<in> set supported_tools" "str ''augment-cli'' \<in> set supported_tools"
    by (simp_all add: supported_tools_def)
  have parsed: "JSON_parse (env_or ?env (str ''AI_ENV'') [])
      = Inr (JObject [(str ''NODE_ENV'', JString (str ''production''))])"
    by code_simp
  have unset: "env_or Map.empty (str ''AI_ENV'') [] = []"
    by (simp add: env_or_def)
  show ?thesis
    using out msg inside parsed unset
      getCliToolConfig_closed_set [of "str ''foo-cli''" ?env]
      getCliToolConfig_closed_set [of "str ''codex-cli''" ?env]
      getCliToolConfig_closed_set [of "str ''augment-cli''" Map.empty]
    by simp
qed

text \<open>
  Claim C8: whenever \<open>executeCliTool\<close> returns, \<open>spawnSync\<close> has answered with a
  status, and the conclusion is \<open>success\<close> if and only if that status is exactly 0; on
  every other status, and on the null status of a child that a signal ended, the
  conclusion is \<open>failure\<close>. The function does return, with that conclusion, whenever
  \<open>process.cwd()\<close> and \<open>spawnSync\<close> do not throw and the output file exists or can
  be written.
\<close>

theorem executeCliTool_conclusion:
  "(snd (executeCliTool rt config) = Inr (outputFile, conclusion) \<longrightarrow>
      (\<exists>cwd status.
         process_cwd rt = Inr cwd
         \<and> spawnSync rt (command config) (args config)
              (child_env (process_env rt) (envSetup config)) cwd = Inr status
         \<and> (conclusion = str ''success'' \<longleftrightarrow> status = Some 0)
         \<and> (conclusion \<noteq> str ''success'' \<longrightarrow> conclusion = str ''failure'')))
   \<and> (process_cwd rt = Inr dir
        \<and> spawnSync rt (command config) (args config)
             (child_env (process_env rt) (envSetup config)) dir = Inr exit
        \<and> (existsSync rt (output_path rt)
             \<or> (\<forall>data. writeFileSync rt (output_path rt) data = None))
      \<longrightarrow> snd (executeCliTool rt config)
            = Inr (output_path rt, if exit = Some 0 then str ''success'' else str ''failure''))"
proof (intro conjI impI)
  assume ret: "snd (executeCliTool rt config) = Inr (outputFile, conclusion)"
  then obtain cwd where cwd: "process_cwd rt = Inr cwd"
    by (cases "process_cwd rt") (simp_all add: executeCliTool_def)
  with ret obtain status where status: "spawnSync rt (command config) (args config)
      (child_env (process_env rt) (envSetup config)) cwd = Inr status"
    by (cases "spawnSync rt (command config) (args config)
          (child_env (process_env rt) (envSetup config)) cwd")
      (simp_all add: executeCliTool_def)
  from ret cwd status have "snd (conclude rt config status) = Inr (outputFile, conclusion)"
    by (simp add: executeCliTool_def)
  then have "conclusion = (if status = Some 0 then str ''success'' else str ''failure'')"
    by (auto simp add: conclude_def Let_def split: if_splits option.splits)
  moreover have "str ''failure'' \<noteq> str ''success''"
    by (simp add: str_def)
  ultimately have "(conclusion = str ''success'' \<longleftrightarrow> status = Some 0)
      \<and> (conclusion \<noteq> str ''success'' \<longrightarrow> conclusion = str ''failure'')"
    by simp
  with cwd status show "\<exists>cwd status.
         process_cwd rt = Inr cwd
         \<and> spawnSync rt (command config) (args config)
              (child_env (process_env rt) (envSetup config)) cwd = Inr status
         \<and> (conclusion = str ''success'' \<longleftrightarrow> status = Some 0)
         \<and> (conclusion \<noteq> str ''success'' \<longrightarrow> conclusion = str ''failure'')"
    by blast
next
  assume "process_cwd rt = Inr dir
        \<and> spawnSync rt (command config) (args config)
             (child_env (process_env rt) (envSetup config)) dir = Inr exit
        \<and> (existsSync rt (output_path rt)
             \<or> (\<forall>data. writeFileSync rt (output_path rt) data = None))"
  then show "snd (executeCliTool rt config)
      = Inr (output_path rt, if exit = Some 0 then str ''success'' else str ''failure'')"
    by (auto simp add: executeCliTool_def conclude_def Let_def)
qed

theorem executeCliTool_conclusion_witness:
  "snd (executeCliTool (example_runtime (Inr (Some 0))) example_config)
     = Inr (str ''/home/runner/work/_temp/ai-execution-output.json'', str ''success'')
   \<and> snd (executeCliTool (example_runtime (Inr (Some 1))) example_config)
     = Inr (str ''/home/runner/work/_temp/ai-execution-output.json'', str ''failure'')
   \<and> snd (executeCliTool (example_runtime (Inr None)) example_config)
     = Inr (str ''/home/runner/work/_temp/ai-execution-output.json'', str ''failure'')
   \<and> executeCliTool (example_runtime (Inl (TypeError (str ''invalid env'')))) example_config
     = ([], Inl (TypeError (str ''invalid env'')))"
proof -
  let ?dir = "str ''/home/runner/work/repo''"
  let ?out = "str ''/home/runner/work/_temp/ai-execution-output.json''"
  have pre: "process_cwd (example_runtime (Inr exit)) = Inr ?dir
        \<and> spawnSync (example_runtime (Inr exit)) (command example_config) (args example_config)
             (child_env (process_env (example_runtime (Inr exit))) (envSetup example_config)) ?dir
            = Inr exit
        \<and> (existsSync (example_runtime (Inr exit)) (output_path (example_runtime (Inr exit)))
             \<or> (\<forall>data. writeFileSync (example_runtime (Inr exit))
                    (output_path (example_runtime (Inr exit))) data = None))"
    for exit
    by (simp add: example_runtime_def)
  have path: "output_path (example_runtime outcome) = ?out" for outcome
    unfolding example_runtime_def by code_simp
  have r0: "snd (executeCliTool (example_runtime (Inr (Some 0))) example_config)
      = Inr (?out, str ''success'')"
    using executeCliTool_conclusion [of "example_runtime (Inr (Some 0))" example_config
        "[]" "[]" ?dir "Some 0", THEN conjunct2, THEN mp, OF pre]
    by (simp add: path)
  have r1: "snd (executeCliTool (example_runtime (Inr (Some 1))) example_config)
      = Inr (?out, str ''failure'')"
    using executeCliTool_conclusion [of "example_runtime (Inr (Some 1))" example_config
        "[]" "[]" ?dir "Some 1", THEN conjunct2, THEN mp, OF pre]
    by (simp add: path)
  have r2: "snd (executeCliTool (example_runtime (Inr None)) example_config)
      = Inr (?out, str ''failure'')"
    using executeCliTool_conclusion [of "example_runtime (Inr None)" example_config
        "[]" "[]" ?dir "None", THEN conjunct2, THEN mp, OF pre]
    by (simp add: path)
  have thrown: "executeCliTool (example_runtime (Inl (TypeError (str ''invalid env'')))) example_config
      = ([], Inl (TypeError (str ''invalid env'')))"
    by (simp add: executeCliTool_def example_runtime_def)
  from r0 r1 r2 thrown show ?thesis by blast
qed

end
